theory Spec2Isabelle
  imports Complex_Main
begin

section \<open>Python values\<close>

text \<open>
  The bot of \<^verbatim>\<open>space_alerrt_bot.py\<close> handles values decoded from JSON (the NOAA and
  NASA payloads, the cache file) and the exceptions the library calls raise. Strings are
  Isabelle strings; the payload fields the code inspects (flare classes, risk colours,
  dictionary keys) are ASCII.
\<close>

datatype exn =
    ConnectionError | Timeout | HTTPError | JSONDecodeError
  | TypeError | KeyError | IndexError | AttributeError | ValueError | OverflowError
  | TwilioException

text \<open>
  \<^verbatim>\<open>except requests.exceptions.RequestException\<close> catches the transport errors, the
  error raised by \<^verbatim>\<open>raise_for_status\<close> and, in requests 2.27 and later, the error
  of \<^verbatim>\<open>r.json()\<close> on a body that is not JSON.
\<close>

fun is_RequestException :: "exn \<Rightarrow> bool" where
  "is_RequestException ConnectionError = True"
| "is_RequestException Timeout = True"
| "is_RequestException HTTPError = True"
| "is_RequestException JSONDecodeError = True"
| "is_RequestException _ = False"

text \<open>
  A Python float is a finite value, an infinity or NaN. Every finite float is a real
  number, and the comparisons of a float with a literal are exact, so a finite float is
  modelled by the real number it denotes. Comparisons with NaN are false.
\<close>

datatype pyfloat = Fin real | PosInf | NegInf | NaN

fun float_ge :: "pyfloat \<Rightarrow> real \<Rightarrow> bool" where
  "float_ge (Fin x) c = (x \<ge> c)"
| "float_ge PosInf c = True"
| "float_ge NegInf c = False"
| "float_ge NaN c = False"

fun float_gt :: "pyfloat \<Rightarrow> real \<Rightarrow> bool" where
  "float_gt (Fin x) c = (x > c)"
| "float_gt PosInf c = True"
| "float_gt NegInf c = False"
| "float_gt NaN c = False"

fun float_le :: "pyfloat \<Rightarrow> pyfloat \<Rightarrow> bool" where
  "float_le NaN _ = False"
| "float_le _ NaN = False"
| "float_le NegInf _ = True"
| "float_le _ PosInf = True"
| "float_le (Fin x) (Fin y) = (x \<le> y)"
| "float_le (Fin x) NegInf = False"
| "float_le PosInf (Fin y) = False"
| "float_le PosInf NegInf = False"

text \<open>A JSON number decodes to an int or to a float; Python compares the two exactly.\<close>

datatype pynum = PyInt int | PyFloat pyfloat

fun num_gt :: "pynum \<Rightarrow> int \<Rightarrow> bool" where
  "num_gt (PyInt n) c = (n > c)"
| "num_gt (PyFloat f) c = float_gt f (real_of_int c)"

fun num_le :: "pynum \<Rightarrow> pynum \<Rightarrow> bool" where
  "num_le (PyInt m) (PyInt n) = (m \<le> n)"
| "num_le (PyInt m) (PyFloat g) = float_le (Fin (real_of_int m)) g"
| "num_le (PyFloat f) (PyInt n) = float_le f (Fin (real_of_int n))"
| "num_le (PyFloat f) (PyFloat g) = float_le f g"

datatype pyval =
    PyNone
  | PyBool bool
  | PyNum pynum
  | PyStr string
  | PyList "pyval list"
  | PyDict "(string \<times> pyval) list"

text \<open>Truthiness, as \<^verbatim>\<open>if x\<close>, \<^verbatim>\<open>not x\<close> and \<^verbatim>\<open>x or y\<close> test it.\<close>

fun truthy :: "pyval \<Rightarrow> bool" where
  "truthy PyNone = False"
| "truthy (PyBool b) = b"
| "truthy (PyNum (PyInt n)) = (n \<noteq> 0)"
| "truthy (PyNum (PyFloat f)) = (f \<noteq> Fin 0)"
| "truthy (PyStr s) = (s \<noteq> [])"
| "truthy (PyList xs) = (xs \<noteq> [])"
| "truthy (PyDict kvs) = (kvs \<noteq> [])"

definition py_not :: "pyval \<Rightarrow> bool" where
  "py_not v = (\<not> truthy v)"

text \<open>
  The readings \<^verbatim>\<open>check_and_alert\<close> holds: \<^verbatim>\<open>kp\<close> is \<^verbatim>\<open>None\<close> or the float that
  \<^verbatim>\<open>fetch_latest_kp\<close> built with \<^verbatim>\<open>float(kp)\<close>; \<^verbatim>\<open>cme_speed\<close> is \<^verbatim>\<open>None\<close> or the
  number that passed \<^verbatim>\<open>speed > 600\<close> in \<^verbatim>\<open>fetch_latest_cme\<close>. The objects they are:
\<close>

fun kp_obj :: "pyfloat option \<Rightarrow> pyval" where
  "kp_obj None = PyNone"
| "kp_obj (Some f) = PyNum (PyFloat f)"

fun speed_obj :: "pynum option \<Rightarrow> pyval" where
  "speed_obj None = PyNone"
| "speed_obj (Some v) = PyNum v"

section \<open>Dictionaries and dynamically typed operations\<close>

type_synonym dict = "(string \<times> pyval) list"

text \<open>\<^verbatim>\<open>d.get(k)\<close> on a dict: the value, or \<^verbatim>\<open>None\<close> when the key is absent.\<close>

fun dict_get :: "dict \<Rightarrow> string \<Rightarrow> pyval" where
  "dict_get [] k = PyNone"
| "dict_get ((k', v) # kvs) k = (if k' = k then v else dict_get kvs k)"

fun has_key :: "dict \<Rightarrow> string \<Rightarrow> bool" where
  "has_key [] k = False"
| "has_key ((k', v) # kvs) k = (k' = k \<or> has_key kvs k)"

text \<open>\<^verbatim>\<open>d[k] = v\<close>: an existing key keeps its place, a new key goes last.\<close>

fun dict_set :: "dict \<Rightarrow> string \<Rightarrow> pyval \<Rightarrow> dict" where
  "dict_set [] k v = [(k, v)]"
| "dict_set ((k', v') # kvs) k v =
     (if k' = k then (k, v) # kvs else (k', v') # dict_set kvs k v)"

text \<open>\<^verbatim>\<open>x[0]\<close>.\<close>

fun py_index0 :: "pyval \<Rightarrow> exn + pyval" where
  "py_index0 (PyList []) = Inl IndexError"
| "py_index0 (PyList (x # xs)) = Inr x"
| "py_index0 (PyStr []) = Inl IndexError"
| "py_index0 (PyStr (c # cs)) = Inr (PyStr [c])"
| "py_index0 (PyDict kvs) = Inl KeyError"
| "py_index0 PyNone = Inl TypeError"
| "py_index0 (PyBool b) = Inl TypeError"
| "py_index0 (PyNum n) = Inl TypeError"

fun starts_with :: "string \<Rightarrow> string \<Rightarrow> bool" where
  "starts_with s [] = True"
| "starts_with [] (c # p) = False"
| "starts_with (a # s) (c # p) = (a = c \<and> starts_with s p)"

fun contains_str :: "string \<Rightarrow> string \<Rightarrow> bool" where
  "contains_str [] p = (p = [])"
| "contains_str (a # s) p = (starts_with (a # s) p \<or> contains_str s p)"

text \<open>
  \<^verbatim>\<open>key in x\<close> for a string \<^verbatim>\<open>key\<close>: a key of a dict, an element of a list, a
  substring of a string.
\<close>

fun py_contains :: "string \<Rightarrow> pyval \<Rightarrow> exn + bool" where
  "py_contains key (PyDict kvs) = Inr (has_key kvs key)"
| "py_contains key (PyList xs) = Inr (PyStr key \<in> set xs)"
| "py_contains key (PyStr s) = Inr (contains_str s key)"
| "py_contains key PyNone = Inl TypeError"
| "py_contains key (PyBool b) = Inl TypeError"
| "py_contains key (PyNum n) = Inl TypeError"

text \<open>\<^verbatim>\<open>x[key]\<close> for a string \<^verbatim>\<open>key\<close>.\<close>

fun py_getitem :: "pyval \<Rightarrow> string \<Rightarrow> exn + pyval" where
  "py_getitem (PyDict kvs) key = (if has_key kvs key then Inr (dict_get kvs key) else Inl KeyError)"
| "py_getitem _ key = Inl TypeError"

text \<open>\<^verbatim>\<open>x[key] = v\<close> for a string \<^verbatim>\<open>key\<close>: only a dict takes it.\<close>

fun py_setitem :: "pyval \<Rightarrow> string \<Rightarrow> pyval \<Rightarrow> exn + pyval" where
  "py_setitem (PyDict kvs) key v = Inr (PyDict (dict_set kvs key v))"
| "py_setitem _ key v = Inl TypeError"

text \<open>\<^verbatim>\<open>x.get(key)\<close> and \<^verbatim>\<open>x.get(key, default)\<close>: only a dict has the method.\<close>

fun py_get :: "pyval \<Rightarrow> string \<Rightarrow> exn + pyval" where
  "py_get (PyDict kvs) key = Inr (dict_get kvs key)"
| "py_get _ key = Inl AttributeError"

fun py_get_default :: "pyval \<Rightarrow> string \<Rightarrow> pyval \<Rightarrow> exn + pyval" where
  "py_get_default (PyDict kvs) key d = Inr (if has_key kvs key then dict_get kvs key else d)"
| "py_get_default _ key d = Inl AttributeError"

text \<open>The elements a \<^verbatim>\<open>for\<close> loop visits.\<close>

fun py_iter :: "pyval \<Rightarrow> exn + pyval list" where
  "py_iter (PyList xs) = Inr xs"
| "py_iter (PyDict kvs) = Inr (map (\<lambda>kv. PyStr (fst kv)) kvs)"
| "py_iter (PyStr s) = Inr (map (\<lambda>c. PyStr [c]) s)"
| "py_iter _ = Inl TypeError"

text \<open>
  The operand of \<^verbatim>\<open>speed > 600\<close> as a number: a bool counts as the int 0 or 1, any
  other object raises \<^verbatim>\<open>TypeError\<close>.
\<close>

fun as_number :: "pyval \<Rightarrow> exn + pynum" where
  "as_number (PyNum n) = Inr n"
| "as_number (PyBool b) = Inr (PyInt (if b then 1 else 0))"
| "as_number _ = Inl TypeError"

text \<open>
  \<^verbatim>\<open>float(x)\<close>: the identity on a float, 0.0 or 1.0 on a bool, \<^verbatim>\<open>TypeError\<close> on
  \<^verbatim>\<open>None\<close>, a list or a dict. The rounding of an int and the parsing of a string belong
  to the interpreter and are a parameter \<open>conv\<close>.
\<close>

fun py_float :: "(pyval \<Rightarrow> exn + pyfloat) \<Rightarrow> pyval \<Rightarrow> exn + pyfloat" where
  "py_float conv (PyNum (PyFloat f)) = Inr f"
| "py_float conv (PyBool b) = Inr (Fin (if b then 1 else 0))"
| "py_float conv (PyNum (PyInt n)) = conv (PyNum (PyInt n))"
| "py_float conv (PyStr s) = conv (PyStr s)"
| "py_float conv PyNone = Inl TypeError"
| "py_float conv (PyList xs) = Inl TypeError"
| "py_float conv (PyDict kvs) = Inl TypeError"

text \<open>
  The text of \<^verbatim>\<open>{x}\<close> in an f-string: a string stands for itself, \<^verbatim>\<open>None\<close> and the
  bools print their names; how a number, a list or a dict prints belongs to the
  interpreter and is a parameter \<open>repr\<close>.
\<close>

fun py_str :: "(pyval \<Rightarrow> string) \<Rightarrow> pyval \<Rightarrow> string" where
  "py_str repr (PyStr s) = s"
| "py_str repr PyNone = ''None''"
| "py_str repr (PyBool b) = (if b then ''True'' else ''False'')"
| "py_str repr v = repr v"

text \<open>\<^verbatim>\<open>sep.join(xs)\<close>.\<close>

fun join :: "string \<Rightarrow> string list \<Rightarrow> string" where
  "join sep [] = []"
| "join sep [x] = x"
| "join sep (x # y # ys) = x @ sep @ join sep (y # ys)"

section \<open>Risk scoring\<close>

text \<open>\<^verbatim>\<open>x > c\<close> for an int literal \<^verbatim>\<open>c\<close>.\<close>

definition py_gt :: "pyval \<Rightarrow> int \<Rightarrow> exn + bool" where
  "py_gt v c = (case as_number v of Inl x \<Rightarrow> Inl x | Inr n \<Rightarrow> Inr (num_gt n c))"

text \<open>
  The three blocks of \<^verbatim>\<open>score_risk\<close>, as its comments number them. Block 1 calls
  \<^verbatim>\<open>float(kp_value)\<close> and block 3 compares \<^verbatim>\<open>cme_speed\<close> with a number: both raise
  on an object of the wrong type. Block 2 only tests equality with \<^verbatim>\<open>'X'\<close> and
  \<^verbatim>\<open>'M'\<close>, which no object refuses.
\<close>

definition kp_score :: "(pyval \<Rightarrow> exn + pyfloat) \<Rightarrow> pyval \<Rightarrow> exn + string" where
  "kp_score conv kp_value =
    (if kp_value \<noteq> PyNone then
       (case py_float conv kp_value of
          Inl x \<Rightarrow> Inl x
        | Inr kp \<Rightarrow>
            Inr (if float_ge kp 6.0 then ''red''
                 else if float_ge kp 3.0 then ''yellow''
                 else ''green''))
     else Inr ''green'')"

definition flare_score :: "pyval \<Rightarrow> string" where
  "flare_score flare_class =
    (if flare_class = PyStr ''X'' then ''red''
     else if flare_class = PyStr ''M'' then ''yellow''
     else ''green'')"

text \<open>\<^verbatim>\<open>cme_speed is not None and cme_speed > c\<close>.\<close>

definition not_none_and_gt :: "pyval \<Rightarrow> int \<Rightarrow> exn + bool" where
  "not_none_and_gt v c = (if v \<noteq> PyNone then py_gt v c else Inr False)"

definition cme_score :: "pyval \<Rightarrow> exn + string" where
  "cme_score cme_speed =
    (case not_none_and_gt cme_speed 1000 of
       Inl x \<Rightarrow> Inl x
     | Inr above_1000 \<Rightarrow>
         if above_1000 then Inr ''red''
         else
           (case not_none_and_gt cme_speed 600 of
              Inl x \<Rightarrow> Inl x
            | Inr above_600 \<Rightarrow> Inr (if above_600 then ''yellow'' else ''green'')))"

text \<open>
  \<^verbatim>\<open>score_risk(kp_value, flare_class=None, cme_speed=None)\<close>: the three blocks in the
  order of the source, then block 4, where the highest level wins. \<open>Inl\<close> is the
  exception a block raised.
\<close>

definition score_risk ::
  "(pyval \<Rightarrow> exn + pyfloat) \<Rightarrow> pyval \<Rightarrow> pyval \<Rightarrow> pyval \<Rightarrow> exn + string" where
  "score_risk conv kp_value flare_class cme_speed =
    (case kp_score conv kp_value of
       Inl x \<Rightarrow> Inl x
     | Inr kp_risk \<Rightarrow>
         (let flare_risk = flare_score flare_class
          in case cme_score cme_speed of
               Inl x \<Rightarrow> Inl x
             | Inr cme_risk \<Rightarrow>
                 Inr (if kp_risk = ''red'' \<or> flare_risk = ''red'' \<or> cme_risk = ''red''
                        then ''red''
                      else if kp_risk = ''yellow'' \<or> flare_risk = ''yellow''
                          \<or> cme_risk = ''yellow''
                        then ''yellow''
                      else ''green'')))"

subsection \<open>The classifier as the specification words it\<close>

text \<open>
  The specification's severities, ordered \<open>NORMAL < ELEVATED < CRITICAL\<close>, and its
  per-indicator thresholds; its combination rule is the maximum of the order. A reading
  is a float (geomagnetic), any object (flare class) or a number (ejection speed);
  \<open>None\<close> is an unavailable reading. These definitions follow the specification;
  \<open>score_risk\<close> above follows the code.
\<close>

datatype severity = NORMAL | ELEVATED | CRITICAL

fun rank :: "severity \<Rightarrow> nat" where
  "rank NORMAL = 0"
| "rank ELEVATED = 1"
| "rank CRITICAL = 2"

instantiation severity :: linorder
begin

definition less_eq_severity :: "severity \<Rightarrow> severity \<Rightarrow> bool" where
  "less_eq_severity a b = (rank a \<le> rank b)"

definition less_severity :: "severity \<Rightarrow> severity \<Rightarrow> bool" where
  "less_severity a b = (rank a < rank b)"

instance
proof
  fix x y z :: severity
  show "(x < y) = (x \<le> y \<and> \<not> y \<le> x)"
    by (auto simp: less_eq_severity_def less_severity_def)
  show "x \<le> x"
    by (simp add: less_eq_severity_def)
  show "x \<le> y \<Longrightarrow> y \<le> z \<Longrightarrow> x \<le> z"
    by (simp add: less_eq_severity_def)
  show "x \<le> y \<Longrightarrow> y \<le> x \<Longrightarrow> x = y"
    by (cases x; cases y) (simp_all add: less_eq_severity_def)
  show "x \<le> y \<or> y \<le> x"
    by (auto simp: less_eq_severity_def)
qed

end

definition geo_severity :: "pyfloat option \<Rightarrow> severity" where
  "geo_severity g =
    (case g of
       None \<Rightarrow> NORMAL
     | Some v \<Rightarrow>
         if float_ge v 6.0 then CRITICAL else if float_ge v 3.0 then ELEVATED else NORMAL)"

definition flare_severity :: "pyval \<Rightarrow> severity" where
  "flare_severity c =
    (if c = PyStr ''X'' then CRITICAL else if c = PyStr ''M'' then ELEVATED else NORMAL)"

definition ejection_severity :: "pynum option \<Rightarrow> severity" where
  "ejection_severity e =
    (case e of
       None \<Rightarrow> NORMAL
     | Some v \<Rightarrow>
         if num_gt v 1000 then CRITICAL else if num_gt v 600 then ELEVATED else NORMAL)"

text \<open>The code's colour of a severity, and the position of a colour in the order.\<close>

fun colour :: "severity \<Rightarrow> string" where
  "colour NORMAL = ''green''"
| "colour ELEVATED = ''yellow''"
| "colour CRITICAL = ''red''"

definition colour_rank :: "string \<Rightarrow> nat" where
  "colour_rank r = (if r = ''red'' then 2 else if r = ''yellow'' then 1 else 0)"

section \<open>The indicator sources\<close>

text \<open>
  What \<^verbatim>\<open>requests.get(url, timeout=15)\<close> meets: no connection, a timeout, an error
  status, a body that is not JSON, or a body that decodes to a value.
\<close>

datatype reply = Unreachable | TimedOut | BadStatus | NotJSON | Body pyval

text \<open>
  \<^verbatim>\<open>r = requests.get(...)\<close>, \<^verbatim>\<open>r.raise_for_status()\<close>, \<^verbatim>\<open>r.json()\<close>: the three
  statements every source starts with.
\<close>

fun get_json :: "reply \<Rightarrow> exn + pyval" where
  "get_json Unreachable = Inl ConnectionError"
| "get_json TimedOut = Inl Timeout"
| "get_json BadStatus = Inl HTTPError"
| "get_json NotJSON = Inl JSONDecodeError"
| "get_json (Body v) = Inr v"

record kp_data =
  kd_kp :: "pyfloat option"
  kd_time :: pyval
  kd_raw :: pyval

record flare_data =
  fd_class :: pyval
  fd_time :: pyval
  fd_raw :: pyval

record cme_data =
  cd_speed :: pynum
  cd_raw :: pyval

text \<open>
  The loop of \<^verbatim>\<open>fetch_latest_kp\<close> over \<^verbatim>\<open>("kp_index", "kp", "Kp")\<close>: the value
  under the first key present, \<^verbatim>\<open>None\<close> when none is.
\<close>

fun find_kp :: "pyval \<Rightarrow> string list \<Rightarrow> exn + pyval" where
  "find_kp latest [] = Inr PyNone"
| "find_kp latest (key # keys) =
     (case py_contains key latest of
        Inl e \<Rightarrow> Inl e
      | Inr present \<Rightarrow> if present then py_getitem latest key else find_kp latest keys)"

text \<open>
  \<^verbatim>\<open>latest.get(k1) or latest.get(k2) or ...\<close>: the first truthy value, else the last.
\<close>

fun first_truthy :: "pyval \<Rightarrow> string list \<Rightarrow> exn + pyval" where
  "first_truthy latest [] = Inr PyNone"
| "first_truthy latest [k] = py_get latest k"
| "first_truthy latest (k # k' # ks) =
     (case py_get latest k of
        Inl e \<Rightarrow> Inl e
      | Inr v \<Rightarrow> if truthy v then Inr v else first_truthy latest (k' # ks))"

text \<open>
  \<^verbatim>\<open>fetch_latest_kp()\<close>. The function has no \<^verbatim>\<open>try\<close>: what the request or the
  parsing raises reaches the caller.
\<close>

definition fetch_latest_kp :: "(pyval \<Rightarrow> exn + pyfloat) \<Rightarrow> reply \<Rightarrow> exn + kp_data option" where
  "fetch_latest_kp conv r =
    (case get_json r of
       Inl e \<Rightarrow> Inl e
     | Inr arr \<Rightarrow>
         if py_not arr then Inr None
         else
           (case py_index0 arr of
              Inl e \<Rightarrow> Inl e
            | Inr latest \<Rightarrow>
                (case find_kp latest [''kp_index'', ''kp'', ''Kp''] of
                   Inl e \<Rightarrow> Inl e
                 | Inr kp \<Rightarrow>
                     (case first_truthy latest [''time_tag'', ''date_time'', ''timestamp'', ''date''] of
                        Inl e \<Rightarrow> Inl e
                      | Inr t \<Rightarrow>
                          if kp = PyNone
                          then Inr (Some \<lparr>kd_kp = None, kd_time = t, kd_raw = latest\<rparr>)
                          else
                            (case py_float conv kp of
                               Inl e \<Rightarrow> Inl e
                             | Inr f \<Rightarrow>
                                 Inr (Some \<lparr>kd_kp = Some f, kd_time = t, kd_raw = latest\<rparr>))))))"

text \<open>
  \<^verbatim>\<open>except requests.exceptions.RequestException as e: ... return None\<close>, the handler
  of the flare and the CME source.
\<close>

definition except_RequestException :: "exn + 'a option \<Rightarrow> exn + 'a option" where
  "except_RequestException res =
    (case res of
       Inl e \<Rightarrow> if is_RequestException e then Inr None else Inl e
     | Inr v \<Rightarrow> Inr v)"

text \<open>\<^verbatim>\<open>fetch_latest_nasa_flare()\<close>: the body of the \<^verbatim>\<open>try\<close>, then the handler.\<close>

definition flare_try :: "reply \<Rightarrow> exn + flare_data option" where
  "flare_try r =
    (case get_json r of
       Inl e \<Rightarrow> Inl e
     | Inr flares \<Rightarrow>
         if py_not flares then Inr None
         else
           (case py_index0 flares of
              Inl e \<Rightarrow> Inl e
            | Inr latest_flare \<Rightarrow>
                (case py_get_default latest_flare ''classType'' (PyStr ''B0.0'') of
                   Inl e \<Rightarrow> Inl e
                 | Inr class_type \<Rightarrow>
                     (case py_index0 class_type of
                        Inl e \<Rightarrow> Inl e
                      | Inr flare_class \<Rightarrow>
                          (case py_get latest_flare ''beginTime'' of
                             Inl e \<Rightarrow> Inl e
                           | Inr time_tag \<Rightarrow>
                               Inr (Some \<lparr>fd_class = flare_class, fd_time = time_tag,
                                          fd_raw = latest_flare\<rparr>))))))"

definition fetch_latest_nasa_flare :: "reply \<Rightarrow> exn + flare_data option" where
  "fetch_latest_nasa_flare r = except_RequestException (flare_try r)"

text \<open>
  The loop of \<^verbatim>\<open>fetch_latest_cme\<close>: the first analysis flagged most accurate whose
  speed is truthy and above 600.
\<close>

fun scan_cme :: "pyval list \<Rightarrow> exn + cme_data option" where
  "scan_cme [] = Inr None"
| "scan_cme (analysis # rest) =
     (case py_get analysis ''isMostAccurate'' of
        Inl e \<Rightarrow> Inl e
      | Inr is_most_accurate \<Rightarrow>
          (case py_get analysis ''speed'' of
             Inl e \<Rightarrow> Inl e
           | Inr speed \<Rightarrow>
               if truthy is_most_accurate \<and> truthy speed
               then
                 (case as_number speed of
                    Inl e \<Rightarrow> Inl e
                  | Inr n \<Rightarrow>
                      if num_gt n 600 then Inr (Some \<lparr>cd_speed = n, cd_raw = analysis\<rparr>)
                      else scan_cme rest)
               else scan_cme rest))"

definition cme_try :: "reply \<Rightarrow> exn + cme_data option" where
  "cme_try r =
    (case get_json r of
       Inl e \<Rightarrow> Inl e
     | Inr cme_analyses \<Rightarrow>
         if py_not cme_analyses then Inr None
         else
           (case py_iter cme_analyses of
              Inl e \<Rightarrow> Inl e
            | Inr analyses \<Rightarrow> scan_cme analyses))"

definition fetch_latest_cme :: "reply \<Rightarrow> exn + cme_data option" where
  "fetch_latest_cme r = except_RequestException (cme_try r)"

section \<open>Messages\<close>

text \<open>
  The table \<^verbatim>\<open>PHRASES\<close>. Its texts hold characters outside ASCII; they are written
  here as their UTF-8 bytes.
\<close>

record phrases =
  title_red :: string
  title_yellow :: string
  title_green :: string
  gps_advice :: string
  power_advice :: string
  flare_risk :: string
  when_phrase :: string

definition PHRASES_en :: phrases where
  "PHRASES_en = \<lparr>
     title_red =
       [CHR 0xE2, CHR 0x9A, CHR 0xA0] @ '' High Space Risk ''
       @ [CHR 0xE2, CHR 0x80, CHR 0x94] @ '' Action Needed!'',
     title_yellow =
       [CHR 0xE2, CHR 0x9A, CHR 0xA0] @ '' Moderate Space Risk ''
       @ [CHR 0xE2, CHR 0x80, CHR 0x94] @ '' Caution'',
     title_green =
       [CHR 0xE2, CHR 0x9C, CHR 0x85] @ '' Space weather normal'',
     gps_advice =
       ''GPS & navigation may be inaccurate. Avoid precision machine ''
       @ ''work (seeding, mapping).'',
     power_advice =
       ''Power or communication disruptions possible '' @ [CHR 0xE2, CHR 0x80, CHR 0x94]
       @ '' keep pumps/devices charged or on standby.'',
     flare_risk =
       ''Solar Flare/CME Risk: Radio Blackouts & communication loss p'' @ ''ossible.'',
     when_phrase =
       ''Observed at''
   \<rparr>"

definition PHRASES_ml :: phrases where
  "PHRASES_ml = \<lparr>
     title_red =
       [CHR 0xE2, CHR 0x9A, CHR 0xA0] @ '' ''
       @ [CHR 0xE0, CHR 0xB4, CHR 0xB8, CHR 0xE0, CHR 0xB5, CHR 0x82]
       @ [CHR 0xE0, CHR 0xB4, CHR 0xB0, CHR 0xE0, CHR 0xB5, CHR 0x8D]
       @ [CHR 0xE0, CHR 0xB4, CHR 0xAF] @ '' ''
       @ [CHR 0xE0, CHR 0xB4, CHR 0xAA, CHR 0xE0, CHR 0xB5, CHR 0x8D]
       @ [CHR 0xE0, CHR 0xB4, CHR 0xB0, CHR 0xE0, CHR 0xB4, CHR 0xB5]
       @ [CHR 0xE0, CHR 0xB5, CHR 0x83, CHR 0xE0, CHR 0xB4, CHR 0xA4]
       @ [CHR 0xE0, CHR 0xB5, CHR 0x8D, CHR 0xE0, CHR 0xB4, CHR 0xA4]
       @ [CHR 0xE0, CHR 0xB4, CHR 0xBF, CHR 0xE0, CHR 0xB4, CHR 0xAF]
       @ [CHR 0xE0, CHR 0xB5, CHR 0x82, CHR 0xE0, CHR 0xB5, CHR 0xBB] @ '' ''
       @ [CHR 0xE0, CHR 0xB4, CHR 0x89, CHR 0xE0, CHR 0xB4, CHR 0xAF]
       @ [CHR 0xE0, CHR 0xB5, CHR 0xBC, CHR 0xE0, CHR 0xB4, CHR 0xA8]
       @ [CHR 0xE0, CHR 0xB5, CHR 0x8D, CHR 0xE0, CHR 0xB4, CHR 0xA8]
       @ [CHR 0xE0, CHR 0xB4, CHR 0xBF, CHR 0xE0, CHR 0xB4, CHR 0xB0]
       @ [CHR 0xE0, CHR 0xB4, CHR 0xBF, CHR 0xE0, CHR 0xB4, CHR 0x95]
       @ [CHR 0xE0, CHR 0xB5, CHR 0x8D, CHR 0xE0, CHR 0xB4, CHR 0x95]
       @ [CHR 0xE0, CHR 0xB5, CHR 0x81, CHR 0xE0, CHR 0xB4, CHR 0xA8]
       @ [CHR 0xE0, CHR 0xB5, CHR 0x8D, CHR 0xE0, CHR 0xB4, CHR 0xA8]
       @ [CHR 0xE0, CHR 0xB5, CHR 0x81] @ '' '' @ [CHR 0xE2, CHR 0x80, CHR 0x94] @ '' ''
       @ [CHR 0xE0, CHR 0xB4, CHR 0xB6, CHR 0xE0, CHR 0xB5, CHR 0x8D]
       @ [CHR 0xE0, CHR 0xB4, CHR 0xB0, CHR 0xE0, CHR 0xB4, CHR 0xA6]
       @ [CHR 0xE0, CHR 0xB5, CHR 0x8D, CHR 0xE0, CHR 0xB4, CHR 0xA7] @ '' ''
       @ [CHR 0xE0, CHR 0xB4, CHR 0xB5, CHR 0xE0, CHR 0xB5, CHR 0x87]
       @ [CHR 0xE0, CHR 0xB4, CHR 0xA3, CHR 0xE0, CHR 0xB4, CHR 0x82],
     title_yellow =
       [CHR 0xE2, CHR 0x9A, CHR 0xA0] @ '' ''
       @ [CHR 0xE0, CHR 0xB4, CHR 0xAE, CHR 0xE0, CHR 0xB4, CHR 0xBF]
       @ [CHR 0xE0, CHR 0xB4, CHR 0xA4, CHR 0xE0, CHR 0xB4, CHR 0xAE]
       @ [CHR 0xE0, CHR 0xB4, CHR 0xBE, CHR 0xE0, CHR 0xB4, CHR 0xAF] @ '' ''
       @ [CHR 0xE0, CHR 0xB4, CHR 0xB8, CHR 0xE0, CHR 0xB5, CHR 0x82]
       @ [CHR 0xE0, CHR 0xB4, CHR 0xB0, CHR 0xE0, CHR 0xB5, CHR 0x8D]
       @ [CHR 0xE0, CHR 0xB4, CHR 0xAF] @ '' ''
       @ [CHR 0xE0, CHR 0xB4, CHR 0xAA, CHR 0xE0, CHR 0xB5, CHR 0x8D]
       @ [CHR 0xE0, CHR 0xB4, CHR 0xB0, CHR 0xE0, CHR 0xB4, CHR 0xB5]
       @ [CHR 0xE0, CHR 0xB5, CHR 0x83, CHR 0xE0, CHR 0xB4, CHR 0xA4]
       @ [CHR 0xE0, CHR 0xB5, CHR 0x8D, CHR 0xE0, CHR 0xB4, CHR 0xA4]
       @ [CHR 0xE0, CHR 0xB4, CHR 0xBF] @ '' '' @ [CHR 0xE2, CHR 0x80, CHR 0x94] @ '' ''
       @ [CHR 0xE0, CHR 0xB4, CHR 0x9C, CHR 0xE0, CHR 0xB4, CHR 0xBE]
       @ [CHR 0xE0, CHR 0xB4, CHR 0x97, CHR 0xE0, CHR 0xB5, CHR 0x8D]
       @ [CHR 0xE0, CHR 0xB4, CHR 0xB0, CHR 0xE0, CHR 0xB4, CHR 0xA4],
     title_green =
       [CHR 0xE2, CHR 0x9C, CHR 0x85] @ '' ''
       @ [CHR 0xE0, CHR 0xB4, CHR 0xB8, CHR 0xE0, CHR 0xB4, CHR 0xBE]
       @ [CHR 0xE0, CHR 0xB4, CHR 0xA7, CHR 0xE0, CHR 0xB4, CHR 0xBE]
       @ [CHR 0xE0, CHR 0xB4, CHR 0xB0, CHR 0xE0, CHR 0xB4, CHR 0xA3] @ '' ''
       @ [CHR 0xE0, CHR 0xB4, CHR 0xB8, CHR 0xE0, CHR 0xB5, CHR 0x8D]
       @ [CHR 0xE0, CHR 0xB4, CHR 0xAB, CHR 0xE0, CHR 0xB5, CHR 0x87]
       @ [CHR 0xE0, CHR 0xB4, CHR 0xB8, CHR 0xE0, CHR 0xB5, CHR 0x8D] @ '' ''
       @ [CHR 0xE0, CHR 0xB4, CHR 0xB5, CHR 0xE0, CHR 0xB5, CHR 0x87]
       @ [CHR 0xE0, CHR 0xB4, CHR 0xA4, CHR 0xE0, CHR 0xB5, CHR 0xBC],
     gps_advice =
       ''GPS '' @ [CHR 0xE0, CHR 0xB4, CHR 0xB6, CHR 0xE0, CHR 0xB4, CHR 0xA4]
       @ [CHR 0xE0, CHR 0xB4, CHR 0x82] @ '' ''
       @ [CHR 0xE0, CHR 0xB4, CHR 0x95, CHR 0xE0, CHR 0xB5, CHR 0x83]
       @ [CHR 0xE0, CHR 0xB4, CHR 0xA4, CHR 0xE0, CHR 0xB5, CHR 0x8D]
       @ [CHR 0xE0, CHR 0xB4, CHR 0xAF, CHR 0xE0, CHR 0xB4, CHR 0xAE]
       @ [CHR 0xE0, CHR 0xB4, CHR 0xBE, CHR 0xE0, CHR 0xB4, CHR 0xAF]
       @ [CHR 0xE0, CHR 0xB4, CHR 0xBF, CHR 0xE0, CHR 0xB4, CHR 0xB0]
       @ [CHR 0xE0, CHR 0xB4, CHR 0xBF, CHR 0xE0, CHR 0xB4, CHR 0x95]
       @ [CHR 0xE0, CHR 0xB5, CHR 0x8D, CHR 0xE0, CHR 0xB4, CHR 0x95]
       @ [CHR 0xE0, CHR 0xB4, CHR 0xBF, CHR 0xE0, CHR 0xB4, CHR 0xB2]
       @ [CHR 0xE0, CHR 0xB5, CHR 0x8D, CHR 0xE0, CHR 0xB4, CHR 0xB2] @ ''. ''
       @ [CHR 0xE0, CHR 0xB4, CHR 0xAF, CHR 0xE0, CHR 0xB4, CHR 0xA8]
       @ [CHR 0xE0, CHR 0xB5, CHR 0x8D, CHR 0xE0, CHR 0xB4, CHR 0xA4]
       @ [CHR 0xE0, CHR 0xB5, CHR 0x8D, CHR 0xE0, CHR 0xB4, CHR 0xB0]
       @ [CHR 0xE0, CHR 0xB4, CHR 0xB5, CHR 0xE0, CHR 0xB4, CHR 0xB2]
       @ [CHR 0xE0, CHR 0xB4, CHR 0x82, CHR 0xE0, CHR 0xB4, CHR 0xAC] @ '' ''
       @ [CHR 0xE0, CHR 0xB4, CHR 0x9C, CHR 0xE0, CHR 0xB5, CHR 0x8B]
       @ [CHR 0xE0, CHR 0xB4, CHR 0xB2, CHR 0xE0, CHR 0xB4, CHR 0xBF] @ '' ''
       @ [CHR 0xE0, CHR 0xB4, CHR 0xAE, CHR 0xE0, CHR 0xB4, CHR 0xBE]
       @ [CHR 0xE0, CHR 0xB4, CHR 0xB1, CHR 0xE0, CHR 0xB5, CHR 0x8D]
       @ [CHR 0xE0, CHR 0xB4, CHR 0xB1, CHR 0xE0, CHR 0xB4, CHR 0xBF]
       @ [CHR 0xE0, CHR 0xB4, CHR 0xAF, CHR 0xE0, CHR 0xB4, CHR 0xBF]
       @ [CHR 0xE0, CHR 0xB4, CHR 0x9F, CHR 0xE0, CHR 0xB5, CHR 0x81]
       @ [CHR 0xE0, CHR 0xB4, CHR 0x95] @ ''.'',
     power_advice =
       [CHR 0xE0, CHR 0xB4, CHR 0xB5, CHR 0xE0, CHR 0xB5, CHR 0x88]
       @ [CHR 0xE0, CHR 0xB4, CHR 0xA6, CHR 0xE0, CHR 0xB5, CHR 0x8D]
       @ [CHR 0xE0, CHR 0xB4, CHR 0xAF, CHR 0xE0, CHR 0xB5, CHR 0x81]
       @ [CHR 0xE0, CHR 0xB4, CHR 0xA4, CHR 0xE0, CHR 0xB4, CHR 0xBF] @ ''/''
       @ [CHR 0xE0, CHR 0xB4, CHR 0x95, CHR 0xE0, CHR 0xB4, CHR 0xAE]
       @ [CHR 0xE0, CHR 0xB5, CHR 0x8D, CHR 0xE0, CHR 0xB4, CHR 0xAF]
       @ [CHR 0xE0, CHR 0xB5, CHR 0x82, CHR 0xE0, CHR 0xB4, CHR 0xA3]
       @ [CHR 0xE0, CHR 0xB4, CHR 0xBF, CHR 0xE0, CHR 0xB4, CHR 0x95]
       @ [CHR 0xE0, CHR 0xB5, CHR 0x8D, CHR 0xE0, CHR 0xB4, CHR 0x95]
       @ [CHR 0xE0, CHR 0xB5, CHR 0x87, CHR 0xE0, CHR 0xB4, CHR 0xB7]
       @ [CHR 0xE0, CHR 0xB5, CHR 0xBB] @ '' ''
       @ [CHR 0xE0, CHR 0xB4, CHR 0xAA, CHR 0xE0, CHR 0xB5, CHR 0x8D]
       @ [CHR 0xE0, CHR 0xB4, CHR 0xB0, CHR 0xE0, CHR 0xB4, CHR 0xB6]
       @ [CHR 0xE0, CHR 0xB5, CHR 0x8D, CHR 0xE0, CHR 0xB4, CHR 0xA8]
       @ [CHR 0xE0, CHR 0xB4, CHR 0x82] @ '' ''
       @ [CHR 0xE0, CHR 0xB4, CHR 0xB8, CHR 0xE0, CHR 0xB4, CHR 0xBE]
       @ [CHR 0xE0, CHR 0xB4, CHR 0xA7, CHR 0xE0, CHR 0xB5, CHR 0x8D]
       @ [CHR 0xE0, CHR 0xB4, CHR 0xAF, CHR 0xE0, CHR 0xB4, CHR 0xA4] @ '' ''
       @ [CHR 0xE2, CHR 0x80, CHR 0x94] @ '' ''
       @ [CHR 0xE0, CHR 0xB4, CHR 0xAA, CHR 0xE0, CHR 0xB4, CHR 0xAE]
       @ [CHR 0xE0, CHR 0xB5, CHR 0x8D, CHR 0xE0, CHR 0xB4, CHR 0xAA]
       @ [CHR 0xE0, CHR 0xB5, CHR 0x81, CHR 0xE0, CHR 0xB4, CHR 0x95]
       @ [CHR 0xE0, CHR 0xB5, CHR 0xBE] @ '' ''
       @ [CHR 0xE0, CHR 0xB4, CHR 0x9A, CHR 0xE0, CHR 0xB4, CHR 0xBE]
       @ [CHR 0xE0, CHR 0xB5, CHR 0xBC, CHR 0xE0, CHR 0xB4, CHR 0x9C]
       @ [CHR 0xE0, CHR 0xB5, CHR 0x8D] @ '' ''
       @ [CHR 0xE0, CHR 0xB4, CHR 0x9A, CHR 0xE0, CHR 0xB5, CHR 0x86]
       @ [CHR 0xE0, CHR 0xB4, CHR 0xAF, CHR 0xE0, CHR 0xB5, CHR 0x8D]
       @ [CHR 0xE0, CHR 0xB4, CHR 0xAF, CHR 0xE0, CHR 0xB5, CHR 0x81]
       @ [CHR 0xE0, CHR 0xB4, CHR 0x95] @ ''.'',
     flare_risk =
       [CHR 0xE0, CHR 0xB4, CHR 0xB8, CHR 0xE0, CHR 0xB5, CHR 0x8B]
       @ [CHR 0xE0, CHR 0xB4, CHR 0xB3, CHR 0xE0, CHR 0xB4, CHR 0xBE]
       @ [CHR 0xE0, CHR 0xB5, CHR 0xBC] @ '' ''
       @ [CHR 0xE0, CHR 0xB4, CHR 0xAB, CHR 0xE0, CHR 0xB5, CHR 0x8D]
       @ [CHR 0xE0, CHR 0xB4, CHR 0xB2, CHR 0xE0, CHR 0xB5, CHR 0x86]
       @ [CHR 0xE0, CHR 0xB4, CHR 0xAF, CHR 0xE0, CHR 0xB5, CHR 0xBC] @ ''/CME ''
       @ [CHR 0xE0, CHR 0xB4, CHR 0xB1, CHR 0xE0, CHR 0xB4, CHR 0xBF]
       @ [CHR 0xE0, CHR 0xB4, CHR 0xB8, CHR 0xE0, CHR 0xB5, CHR 0x8D]
       @ [CHR 0xE0, CHR 0xB4, CHR 0x95, CHR 0xE0, CHR 0xB5, CHR 0x8D] @ '': ''
       @ [CHR 0xE0, CHR 0xB4, CHR 0xB1, CHR 0xE0, CHR 0xB5, CHR 0x87]
       @ [CHR 0xE0, CHR 0xB4, CHR 0xA1, CHR 0xE0, CHR 0xB4, CHR 0xBF]
       @ [CHR 0xE0, CHR 0xB4, CHR 0xAF, CHR 0xE0, CHR 0xB5, CHR 0x8B] @ '' ''
       @ [CHR 0xE0, CHR 0xB4, CHR 0xA4, CHR 0xE0, CHR 0xB4, CHR 0x9F]
       @ [CHR 0xE0, CHR 0xB4, CHR 0xB8, CHR 0xE0, CHR 0xB5, CHR 0x8D]
       @ [CHR 0xE0, CHR 0xB4, CHR 0xB8, CHR 0xE0, CHR 0xB4, CHR 0x99]
       @ [CHR 0xE0, CHR 0xB5, CHR 0x8D, CHR 0xE0, CHR 0xB4, CHR 0x99]
       @ [CHR 0xE0, CHR 0xB5, CHR 0xBE] @ '' ''
       @ [CHR 0xE0, CHR 0xB4, CHR 0xB8, CHR 0xE0, CHR 0xB4, CHR 0xBE]
       @ [CHR 0xE0, CHR 0xB4, CHR 0xA7, CHR 0xE0, CHR 0xB5, CHR 0x8D]
       @ [CHR 0xE0, CHR 0xB4, CHR 0xAF, CHR 0xE0, CHR 0xB4, CHR 0xA4] @ ''.'',
     when_phrase =
       [CHR 0xE0, CHR 0xB4, CHR 0x95, CHR 0xE0, CHR 0xB4, CHR 0xA3]
       @ [CHR 0xE0, CHR 0xB5, CHR 0x8D, CHR 0xE0, CHR 0xB4, CHR 0x9F]
       @ [CHR 0xE0, CHR 0xB5, CHR 0x86, CHR 0xE0, CHR 0xB4, CHR 0x9F]
       @ [CHR 0xE0, CHR 0xB5, CHR 0x81, CHR 0xE0, CHR 0xB4, CHR 0xA4]
       @ [CHR 0xE0, CHR 0xB5, CHR 0x8D, CHR 0xE0, CHR 0xB4, CHR 0xA4]
       @ [CHR 0xE0, CHR 0xB4, CHR 0xA4, CHR 0xE0, CHR 0xB5, CHR 0x8D]
   \<rparr>"

text \<open>\<^verbatim>\<open>PHRASES.get(lang, PHRASES["en"])\<close>.\<close>

definition PHRASES_get :: "string \<Rightarrow> phrases" where
  "PHRASES_get lang =
    (if lang = ''en'' then PHRASES_en else if lang = ''ml'' then PHRASES_ml else PHRASES_en)"

text \<open>
  \<^verbatim>\<open>format_message\<close>: first the list \<^verbatim>\<open>body_lines\<close> as it stands at the
  \<^verbatim>\<open>return\<close>, then the joined text.
\<close>

definition body_lines ::
  "(pyval \<Rightarrow> string) \<Rightarrow> string \<Rightarrow> pyval \<Rightarrow> pyval \<Rightarrow> pyval \<Rightarrow> pyval \<Rightarrow> string
    \<Rightarrow> string list" where
  "body_lines repr risk kp_val time_str flare_class cme_speed lang =
    (let p = PHRASES_get lang;
         title =
           (if risk = ''red'' then title_red p
            else if risk = ''yellow'' then title_yellow p
            else title_green p);
         observed =
           when_phrase p @ '': '' @ py_str repr time_str @ '' (Kp=''
             @ py_str repr kp_val @ '')'';
         with_flare =
           (if truthy flare_class \<and> (flare_class = PyStr ''X'' \<or> flare_class = PyStr ''M'')
            then observed @ '' | Flare Class: '' @ py_str repr flare_class
            else observed);
         with_cme =
           (if truthy cme_speed
            then with_flare @ '' | CME Speed: '' @ py_str repr cme_speed @ '' km/s''
            else with_flare)
     in [title, with_cme] @
        (if risk = ''red'' then [gps_advice p, power_advice p, flare_risk p]
         else if risk = ''yellow'' then
           [gps_advice p] @
           (if flare_class = PyStr ''M'' \<or> truthy cme_speed then [flare_risk p] else [])
         else [''No immediate action needed.'']))"

definition format_message ::
  "(pyval \<Rightarrow> string) \<Rightarrow> string \<Rightarrow> pyval \<Rightarrow> pyval \<Rightarrow> pyval \<Rightarrow> pyval \<Rightarrow> string
    \<Rightarrow> string" where
  "format_message repr risk kp_val time_str flare_class cme_speed lang =
    join [CHR 0x0A] (body_lines repr risk kp_val time_str flare_class cme_speed lang)"

section \<open>The cache, the status file and the cycle\<close>

text \<open>
  A file of the bot is absent, holds text that \<^verbatim>\<open>json.load\<close> rejects (a write cut
  short, say), or holds JSON text, which decodes to a value: the dict the bot dumped
  last, or whatever else the file was given (\<^verbatim>\<open>null\<close>, a list, a number, a
  string).
\<close>

datatype stored = Absent | Unreadable | Holds pyval

record files =
  cache_file :: stored
  status_file :: stored

text \<open>
  \<^verbatim>\<open>load_cache()\<close>: the empty dict for a missing file and for one \<^verbatim>\<open>json.load\<close>
  raises on; otherwise what \<^verbatim>\<open>json.load\<close> returns, a dict or not.
\<close>

fun load_cache :: "stored \<Rightarrow> pyval" where
  "load_cache Absent = PyDict []"
| "load_cache Unreadable = PyDict []"
| "load_cache (Holds v) = v"

definition save_cache :: "pyval \<Rightarrow> files \<Rightarrow> files" where
  "save_cache d fs = fs\<lparr>cache_file := Holds d\<rparr>"

text \<open>
  What one cycle meets outside the program: the replies of the three providers, the
  interpreter's \<^verbatim>\<open>float\<close> and number printing, the Twilio gateway (a message id, or
  an exception) and the three clock readings of \<^verbatim>\<open>check_and_alert\<close>.
\<close>

record env =
  noaa :: reply
  donki_flr :: reply
  donki_cme :: reply
  float_conv :: "pyval \<Rightarrow> exn + pyfloat"
  str_conv :: "pyval \<Rightarrow> string"
  twilio :: "string \<Rightarrow> exn + string"
  utc_iso :: string
  utc_clean :: string
  utc_sent :: string

text \<open>\<^verbatim>\<open>send_whatsapp(message)\<close>: the gateway's message id, or what the client raises.\<close>

definition send_whatsapp :: "env \<Rightarrow> string \<Rightarrow> exn + string" where
  "send_whatsapp e message = twilio e message"

text \<open>
  Steps 1 to 4 of \<^verbatim>\<open>check_and_alert\<close>: the three fetches and the score. \<open>Inl\<close> is an
  exception on its way to the handler of the cycle, \<open>Inr None\<close> the early return
  \<^verbatim>\<open>"No NOAA Kp data"\<close>.
\<close>

record sample =
  s_kp :: "pyfloat option"
  s_time :: pyval
  s_flare :: pyval
  s_cme :: "pynum option"
  s_risk :: string

definition readings :: "env \<Rightarrow> exn + sample option" where
  "readings e =
    (case fetch_latest_kp (float_conv e) (noaa e) of
       Inl x \<Rightarrow> Inl x
     | Inr None \<Rightarrow> Inr None
     | Inr (Some kd) \<Rightarrow>
         (let kp = kd_kp kd;
              t = (if truthy (kd_time kd) then kd_time kd else PyStr (utc_iso e))
          in case fetch_latest_nasa_flare (donki_flr e) of
               Inl x \<Rightarrow> Inl x
             | Inr flare_found \<Rightarrow>
                 (let flare_class = (case flare_found of None \<Rightarrow> PyNone | Some fd \<Rightarrow> fd_class fd)
                  in case fetch_latest_cme (donki_cme e) of
                       Inl x \<Rightarrow> Inl x
                     | Inr cme_found \<Rightarrow>
                         (let cme_speed = map_option cd_speed cme_found
                          in case score_risk (float_conv e) (kp_obj kp) flare_class
                                    (speed_obj cme_speed) of
                               Inl x \<Rightarrow> Inl x
                             | Inr risk \<Rightarrow>
                                 Inr (Some \<lparr>s_kp = kp, s_time = t, s_flare = flare_class,
                                             s_cme = cme_speed, s_risk = risk\<rparr>)))))"

text \<open>
  The decision of \<^verbatim>\<open>check_and_alert\<close>: \<^verbatim>\<open>last = cache.get("last_kp")\<close>, then
  \<^verbatim>\<open>not last or risk != cache.get("last_risk")\<close>, where \<^verbatim>\<open>or\<close> looks at its right
  side only when the left one is false. On a cache that is not a dict the first
  \<^verbatim>\<open>cache.get\<close> raises \<^verbatim>\<open>AttributeError\<close>. (The variable \<^verbatim>\<open>last\<close> is
  \<open>last_kp\<close> here.)
\<close>

definition should_send :: "pyval \<Rightarrow> string \<Rightarrow> exn + bool" where
  "should_send cache risk =
    (case py_get cache ''last_kp'' of
       Inl x \<Rightarrow> Inl x
     | Inr last_kp \<Rightarrow>
         if py_not last_kp then Inr True
         else
           (case py_get cache ''last_risk'' of
              Inl x \<Rightarrow> Inl x
            | Inr last_risk \<Rightarrow> Inr (PyStr risk \<noteq> last_risk)))"

text \<open>The dict \<^verbatim>\<open>current_status\<close> that goes to \<^verbatim>\<open>status.json\<close>.\<close>

definition current_status :: "sample \<Rightarrow> string \<Rightarrow> dict" where
  "current_status s clean_time =
    [(''risk'', PyStr (s_risk s)),
     (''kp_value'', kp_obj (s_kp s)),
     (''flare_class'', s_flare s),
     (''cme_speed'', speed_obj (s_cme s)),
     (''time'', PyStr clean_time)]"

text \<open>\<^verbatim>\<open>full_msg\<close>: the English and the Malayalam message around a divider.\<close>

definition full_msg :: "env \<Rightarrow> sample \<Rightarrow> string" where
  "full_msg e s =
    format_message (str_conv e) (s_risk s) (kp_obj (s_kp s)) (s_time s) (s_flare s)
      (speed_obj (s_cme s)) ''en''
    @ [CHR 0x0A, CHR 0x0A] @ ''---'' @ [CHR 0x0A]
    @ format_message (str_conv e) (s_risk s) (kp_obj (s_kp s)) (s_time s) (s_flare s)
        (speed_obj (s_cme s)) ''ml''"

text \<open>The five assignments to \<^verbatim>\<open>cache\<close> after a message was sent, in their order.\<close>

definition sent_cache :: "env \<Rightarrow> sample \<Rightarrow> string \<Rightarrow> pyval \<Rightarrow> exn + pyval" where
  "sent_cache e s sid cache =
    (case py_setitem cache ''last_kp'' (kp_obj (s_kp s)) of
       Inl x \<Rightarrow> Inl x
     | Inr c1 \<Rightarrow>
         (case py_setitem c1 ''last_time'' (s_time s) of
            Inl x \<Rightarrow> Inl x
          | Inr c2 \<Rightarrow>
              (case py_setitem c2 ''last_risk'' (PyStr (s_risk s)) of
                 Inl x \<Rightarrow> Inl x
               | Inr c3 \<Rightarrow>
                   (case py_setitem c3 ''last_sent_sid'' (PyStr sid) of
                      Inl x \<Rightarrow> Inl x
                    | Inr c4 \<Rightarrow> py_setitem c4 ''last_sent_at'' (PyStr (utc_sent e))))))"

text \<open>
  How a cycle ends (the line it prints last), and what it leaves: the files, and the
  messages it handed to \<^verbatim>\<open>send_whatsapp\<close>.
\<close>

datatype ending = No_kp_data | Error_in_check exn | Sent string | No_alert

record outcome =
  disk :: files
  notified :: "string list"
  ended :: ending

text \<open>
  \<^verbatim>\<open>check_and_alert()\<close>. The cache is loaded and the decision taken first; then the
  status file is written, before the message is sent; the cache is written only after
  \<^verbatim>\<open>send_whatsapp\<close> has returned. An exception anywhere ends the cycle in the handler
  \<^verbatim>\<open>except Exception\<close>, with the files as they are then. The two writes are taken
  to succeed: a disk that refuses a write is outside the model.
\<close>

definition check_and_alert :: "env \<Rightarrow> files \<Rightarrow> outcome" where
  "check_and_alert e fs =
    (case readings e of
       Inl x \<Rightarrow> \<lparr>disk = fs, notified = [], ended = Error_in_check x\<rparr>
     | Inr None \<Rightarrow> \<lparr>disk = fs, notified = [], ended = No_kp_data\<rparr>
     | Inr (Some s) \<Rightarrow>
         (let cache = load_cache (cache_file fs)
          in case should_send cache (s_risk s) of
               Inl x \<Rightarrow> \<lparr>disk = fs, notified = [], ended = Error_in_check x\<rparr>
             | Inr decision \<Rightarrow>
                 (let fs1 = fs\<lparr>status_file := Holds (PyDict (current_status s (utc_clean e)))\<rparr>
                  in if decision then
                       (case send_whatsapp e (full_msg e s) of
                          Inl x \<Rightarrow>
                            \<lparr>disk = fs1, notified = [full_msg e s], ended = Error_in_check x\<rparr>
                        | Inr sid \<Rightarrow>
                            (case sent_cache e s sid cache of
                               Inl x \<Rightarrow>
                                 \<lparr>disk = fs1, notified = [full_msg e s],
                                  ended = Error_in_check x\<rparr>
                             | Inr cache' \<Rightarrow>
                                 \<lparr>disk = save_cache cache' fs1, notified = [full_msg e s],
                                  ended = Sent sid\<rparr>))
                     else \<lparr>disk = fs1, notified = [], ended = No_alert\<rparr>)))"

section \<open>Example cycles\<close>

text \<open>
  Concrete surroundings for the closed examples below. \<open>float_of_small_int\<close> stands for
  \<^verbatim>\<open>float\<close> as far as the examples need it: an int of at most 53 bits converts
  exactly, and the examples pass it nothing else. \<open>repr_stub\<close> stands for the printing
  of numbers; no example depends on the text it yields.
\<close>

definition float_of_small_int :: "pyval \<Rightarrow> exn + pyfloat" where
  "float_of_small_int v =
    (case v of
       PyNum (PyInt n) \<Rightarrow>
         if \<bar>n\<bar> \<le> 2 ^ 53 then Inr (Fin (real_of_int n)) else Inl OverflowError
     | _ \<Rightarrow> Inl ValueError)"

definition repr_stub :: "pyval \<Rightarrow> string" where
  "repr_stub v = ''#''"

definition gateway_up :: "string \<Rightarrow> exn + string" where
  "gateway_up message = Inr ''SM0001''"

definition gateway_down :: "string \<Rightarrow> exn + string" where
  "gateway_down message = Inl TwilioException"

text \<open>A NOAA payload whose first entry reports the Kp index \<open>k\<close>.\<close>

definition noaa_kp :: "int \<Rightarrow> reply" where
  "noaa_kp k =
    Body (PyList [PyDict [(''time_tag'', PyStr ''2025-10-04T12:00:00''),
                          (''kp_index'', PyNum (PyInt k))]])"

text \<open>
  A cycle at the time \<open>hm\<close> of 4 October 2025 in which NOAA reports the Kp index \<open>k\<close>,
  NASA reports no flare and no CME, and the gateway behaves as \<open>gw\<close>.
\<close>

definition kp_env :: "int \<Rightarrow> (string \<Rightarrow> exn + string) \<Rightarrow> string \<Rightarrow> env" where
  "kp_env k gw hm =
    \<lparr>noaa = noaa_kp k, donki_flr = Body (PyList []), donki_cme = Body (PyList []),
     float_conv = float_of_small_int, str_conv = repr_stub, twilio = gw,
     utc_iso = ''2025-10-04T'' @ hm @ '':00+00:00'',
     utc_clean = ''2025-10-04 '' @ hm @ '':00 UTC'',
     utc_sent = ''2025-10-04T'' @ hm @ '':01+00:00''\<rparr>"

definition kp_sample :: "int \<Rightarrow> sample" where
  "kp_sample k =
    \<lparr>s_kp = Some (Fin (real_of_int k)), s_time = PyStr ''2025-10-04T12:00:00'',
     s_flare = PyNone, s_cme = None,
     s_risk = colour (geo_severity (Some (Fin (real_of_int k))))\<rparr>"

definition no_files :: files where
  "no_files = \<lparr>cache_file = Absent, status_file = Absent\<rparr>"

text \<open>The files a cycle that sent an alert at Kp \<open>k\<close> and risk \<open>r\<close> left behind.\<close>

definition files_after :: "int \<Rightarrow> string \<Rightarrow> files" where
  "files_after k r =
    \<lparr>cache_file =
       Holds (PyDict [(''last_kp'', PyNum (PyFloat (Fin (real_of_int k)))),
                      (''last_time'', PyStr ''2025-10-04T11:55:00''),
                      (''last_risk'', PyStr r),
                      (''last_sent_sid'', PyStr ''SM0000''),
                      (''last_sent_at'', PyStr ''2025-10-04T11:55:01+00:00'')]),
     status_file =
       Holds (PyDict [(''risk'', PyStr r),
                      (''kp_value'', PyNum (PyFloat (Fin (real_of_int k)))),
                      (''flare_class'', PyNone),
                      (''cme_speed'', PyNone),
                      (''time'', PyStr ''2025-10-04 11:55:00 UTC'')])\<rparr>"

text \<open>A cache file that holds JSON which is not an object: the empty list.\<close>

definition list_in_cache :: files where
  "list_in_cache = \<lparr>cache_file = Holds (PyList []), status_file = Absent\<rparr>"

section \<open>Properties of the risk scoring\<close>

lemma max_severity_cases: "max a b = (if rank a \<le> rank b then b else a)"
  by (simp add: max_def less_eq_severity_def)

lemma colour_rank_colour: "colour_rank (colour s) = rank s"
  by (cases s) (simp_all add: colour_rank_def)

text \<open>On a reading, each block of \<open>score_risk\<close> returns, with the colour of the severity.\<close>

lemma kp_score_reading: "kp_score conv (kp_obj kp) = Inr (colour (geo_severity kp))"
  by (cases kp) (simp_all add: kp_score_def geo_severity_def)

lemma flare_score_colour: "flare_score fl = colour (flare_severity fl)"
  by (simp add: flare_score_def flare_severity_def)

lemma cme_score_reading: "cme_score (speed_obj c) = Inr (colour (ejection_severity c))"
  by (cases c)
    (simp_all add: cme_score_def not_none_and_gt_def py_gt_def ejection_severity_def)

lemma highest_wins:
  "(if colour a = ''red'' \<or> colour b = ''red'' \<or> colour d = ''red'' then ''red''
    else if colour a = ''yellow'' \<or> colour b = ''yellow'' \<or> colour d = ''yellow''
      then ''yellow''
    else ''green'') = colour (max a (max b d))"
  by (cases a; cases b; cases d) (simp_all add: max_severity_cases)

lemma score_risk_reading:
  "score_risk conv (kp_obj kp) fl (speed_obj c) =
     Inr (colour (max (geo_severity kp) (max (flare_severity fl) (ejection_severity c))))"
  by (simp add: score_risk_def kp_score_reading flare_score_colour cme_score_reading
      highest_wins)

lemma score_risk_kp_only:
  "score_risk conv (PyNum (PyFloat f)) PyNone PyNone = Inr (colour (geo_severity (Some f)))"
proof -
  have "max (geo_severity (Some f)) (max (flare_severity PyNone) (ejection_severity None))
      = geo_severity (Some f)"
    by (cases "geo_severity (Some f)")
      (simp_all add: flare_severity_def ejection_severity_def max_severity_cases)
  with score_risk_reading [of conv "Some f" PyNone None] show ?thesis
    by simp
qed

lemma geo_severity_mono:
  assumes "float_le a b"
  shows "geo_severity (Some a) \<le> geo_severity (Some b)"
  using assms
  by (cases a; cases b) (auto simp: geo_severity_def less_eq_severity_def)

lemma ejection_severity_mono:
  assumes "num_le x y"
  shows "ejection_severity (Some x) \<le> ejection_severity (Some y)"
proof (cases x)
  case (PyInt m)
  with assms show ?thesis
  proof (cases y)
    case (PyInt n)
    with \<open>x = PyInt m\<close> assms show ?thesis
      by (auto simp: ejection_severity_def less_eq_severity_def)
  next
    case (PyFloat g)
    with \<open>x = PyInt m\<close> assms show ?thesis
      by (cases g) (auto simp: ejection_severity_def less_eq_severity_def)
  qed
next
  case (PyFloat f)
  with assms show ?thesis
  proof (cases y)
    case (PyInt n)
    with \<open>x = PyFloat f\<close> assms show ?thesis
      by (cases f) (auto simp: ejection_severity_def less_eq_severity_def)
  next
    case (PyFloat g)
    with \<open>x = PyFloat f\<close> assms show ?thesis
      by (cases f; cases g) (auto simp: ejection_severity_def less_eq_severity_def)
  qed
qed

text \<open>
  C2. For every combination of readings (each one a value or unavailable)
  \<open>score_risk\<close> returns the colour of the maximum, under
  \<open>NORMAL < ELEVATED < CRITICAL\<close>, of the three per-indicator severities of the
  specification: geomagnetic value at least 6.0 critical, at least 3.0 elevated, else
  (and when unavailable) normal; flare class X critical, M elevated, else normal;
  ejection speed above 1000 critical, above 600 elevated, else normal.
\<close>

theorem score_risk_is_max:
  "score_risk conv (kp_obj kp) fl (speed_obj c) =
     Inr (colour (max (geo_severity kp) (max (flare_severity fl) (ejection_severity c))))"
proof -
  have block1: "kp_score conv (kp_obj kp) = Inr (colour (geo_severity kp))"
  proof (cases kp)
    case None
    then show ?thesis by (simp add: kp_score_def geo_severity_def)
  next
    case (Some v)
    then show ?thesis by (simp add: kp_score_def geo_severity_def)
  qed
  have block2: "flare_score fl = colour (flare_severity fl)"
    by (simp add: flare_score_def flare_severity_def)
  have block3: "cme_score (speed_obj c) = Inr (colour (ejection_severity c))"
  proof (cases c)
    case None
    then show ?thesis
      by (simp add: cme_score_def not_none_and_gt_def ejection_severity_def)
  next
    case (Some v)
    then show ?thesis
      by (simp add: cme_score_def not_none_and_gt_def py_gt_def ejection_severity_def)
  qed
  have block4:
    "(if colour a = ''red'' \<or> colour b = ''red'' \<or> colour d = ''red'' then ''red''
      else if colour a = ''yellow'' \<or> colour b = ''yellow'' \<or> colour d = ''yellow''
        then ''yellow''
      else ''green'') = colour (max a (max b d))" for a b d
    by (cases a; cases b; cases d) (simp_all add: max_severity_cases)
  show ?thesis
    by (simp add: score_risk_def block1 block2 block3 block4)
qed

text \<open>
  C3. \<open>score_risk\<close> is monotonic in each argument: when no indicator's severity goes
  down, the combined result does not go down in the order green, yellow, red. A larger
  Kp value and a larger CME speed never have a smaller severity, an unavailable reading
  has the least, and the flare classes rise from any class below M to M to X.
\<close>

theorem score_risk_monotone:
  "(geo_severity kp \<le> geo_severity kp' \<and> flare_severity fl \<le> flare_severity fl'
      \<and> ejection_severity c \<le> ejection_severity c'
      \<longrightarrow> (\<exists>r r'. score_risk conv (kp_obj kp) fl (speed_obj c) = Inr r
                  \<and> score_risk conv (kp_obj kp') fl' (speed_obj c') = Inr r'
                  \<and> colour_rank r \<le> colour_rank r'))
   \<and> (float_le a b \<longrightarrow> geo_severity (Some a) \<le> geo_severity (Some b))
   \<and> geo_severity None \<le> geo_severity kp
   \<and> (num_le x y \<longrightarrow> ejection_severity (Some x) \<le> ejection_severity (Some y))
   \<and> ejection_severity None \<le> ejection_severity c
   \<and> flare_severity fl \<le> flare_severity (PyStr ''X'')
   \<and> (fl \<noteq> PyStr ''X'' \<longrightarrow> flare_severity fl \<le> flare_severity (PyStr ''M''))"
proof -
  have combined:
    "\<exists>r r'. score_risk conv (kp_obj kp) fl (speed_obj c) = Inr r
       \<and> score_risk conv (kp_obj kp') fl' (speed_obj c') = Inr r'
       \<and> colour_rank r \<le> colour_rank r'"
    if g: "geo_severity kp \<le> geo_severity kp'"
      and f: "flare_severity fl \<le> flare_severity fl'"
      and j: "ejection_severity c \<le> ejection_severity c'"
  proof -
    from f j have "max (flare_severity fl) (ejection_severity c)
        \<le> max (flare_severity fl') (ejection_severity c')"
      by (rule max.mono)
    with g have "max (geo_severity kp) (max (flare_severity fl) (ejection_severity c))
        \<le> max (geo_severity kp') (max (flare_severity fl') (ejection_severity c'))"
      by (rule max.mono)
    then show ?thesis
      by (simp add: score_risk_reading colour_rank_colour less_eq_severity_def)
  qed
  have geo_least: "geo_severity None \<le> geo_severity kp"
    by (simp add: geo_severity_def less_eq_severity_def)
  have ejection_least: "ejection_severity None \<le> ejection_severity c"
    by (simp add: ejection_severity_def less_eq_severity_def)
  have flare_top: "flare_severity fl \<le> flare_severity (PyStr ''X'')"
    by (simp add: flare_severity_def less_eq_severity_def)
  have flare_mid: "flare_severity fl \<le> flare_severity (PyStr ''M'')" if "fl \<noteq> PyStr ''X''"
    using that by (simp add: flare_severity_def less_eq_severity_def)
  from combined geo_severity_mono geo_least ejection_severity_mono ejection_least
    flare_top flare_mid
  show ?thesis by blast
qed

theorem score_risk_monotone_witness:
  "geo_severity (Some (Fin 2.0)) \<le> geo_severity (Some (Fin 6.5))
   \<and> flare_severity (PyStr ''C'') \<le> flare_severity (PyStr ''M'')
   \<and> ejection_severity None \<le> ejection_severity (Some (PyInt 700))
   \<and> score_risk float_of_small_int (PyNum (PyFloat (Fin 2.0))) (PyStr ''C'') PyNone
       = Inr ''green''
   \<and> score_risk float_of_small_int (PyNum (PyFloat (Fin 6.5))) (PyStr ''M'')
         (PyNum (PyInt 700))
       = Inr ''red''
   \<and> colour_rank ''green'' \<le> colour_rank ''red''
   \<and> float_le (Fin 2.0) (Fin 6.5)
   \<and> num_le (PyInt 700) (PyFloat (Fin 1100.5))
   \<and> ejection_severity (Some (PyInt 700)) \<le> ejection_severity (Some (PyFloat (Fin 1100.5)))
   \<and> PyStr ''C'' \<noteq> PyStr ''X''"
  using score_risk_monotone
    [of "Some (Fin 2.0)" "Some (Fin 6.5)" "PyStr ''C''" "PyStr ''M''" None "Some (PyInt 700)"
      float_of_small_int "Fin 2.0" "Fin 6.5" "PyInt 700" "PyFloat (Fin 1100.5)"]
  by (simp add: geo_severity_def flare_severity_def ejection_severity_def
      less_eq_severity_def score_risk_def kp_score_def flare_score_def cme_score_def
      not_none_and_gt_def py_gt_def colour_rank_def)

text \<open>
  C4. \<open>score_risk\<close> is total: for every combination of readings, all three unavailable
  included, it raises nothing and returns one of the three colours; an unavailable
  reading contributes \<open>NORMAL\<close> to the maximum; and with nothing available the result
  is green.
\<close>

theorem score_risk_total:
  "(\<exists>r. score_risk conv (kp_obj kp) fl (speed_obj c) = Inr r
       \<and> (r = ''green'' \<or> r = ''yellow'' \<or> r = ''red''))
   \<and> score_risk conv PyNone fl (speed_obj c)
       = Inr (colour (max NORMAL (max (flare_severity fl) (ejection_severity c))))
   \<and> score_risk conv (kp_obj kp) PyNone (speed_obj c)
       = Inr (colour (max (geo_severity kp) (max NORMAL (ejection_severity c))))
   \<and> score_risk conv (kp_obj kp) fl PyNone
       = Inr (colour (max (geo_severity kp) (max (flare_severity fl) NORMAL)))
   \<and> score_risk conv PyNone PyNone PyNone = Inr ''green''"
proof -
  have range: "colour s = ''green'' \<or> colour s = ''yellow'' \<or> colour s = ''red''" for s
    by (cases s) simp_all
  have returns:
    "\<exists>r. score_risk conv (kp_obj kp) fl (speed_obj c) = Inr r
       \<and> (r = ''green'' \<or> r = ''yellow'' \<or> r = ''red'')"
    using range [of "max (geo_severity kp) (max (flare_severity fl) (ejection_severity c))"]
    by (simp add: score_risk_reading)
  have no_kp: "score_risk conv PyNone fl (speed_obj c)
      = Inr (colour (max NORMAL (max (flare_severity fl) (ejection_severity c))))"
    using score_risk_reading [of conv None fl c] by (simp add: geo_severity_def)
  have no_flare: "score_risk conv (kp_obj kp) PyNone (speed_obj c)
      = Inr (colour (max (geo_severity kp) (max NORMAL (ejection_severity c))))"
    using score_risk_reading [of conv kp PyNone c] by (simp add: flare_severity_def)
  have no_cme: "score_risk conv (kp_obj kp) fl PyNone
      = Inr (colour (max (geo_severity kp) (max (flare_severity fl) NORMAL)))"
    using score_risk_reading [of conv kp fl None] by (simp add: ejection_severity_def)
  have all_missing: "score_risk conv PyNone PyNone PyNone = Inr ''green''"
    by (simp add: score_risk_def kp_score_def flare_score_def cme_score_def
        not_none_and_gt_def)
  from returns no_kp no_flare no_cme all_missing show ?thesis
    by blast
qed

section \<open>Properties of the cycle\<close>

lemma dict_get_set: "dict_get (dict_set d k v) k' = (if k' = k then v else dict_get d k')"
  by (induction d) auto

text \<open>The decision on a dict, and on an object that has no \<^verbatim>\<open>get\<close>.\<close>

lemma should_send_dict:
  "should_send (PyDict d) risk =
     Inr (\<not> truthy (dict_get d ''last_kp'') \<or> dict_get d ''last_risk'' \<noteq> PyStr risk)"
  by (auto simp: should_send_def py_not_def)

lemma should_send_no_get:
  assumes "py_get cache ''last_kp'' = Inl x"
  shows "should_send cache risk = Inl x"
  using assms by (simp add: should_send_def)

lemma py_get_cases:
  "(\<exists>d. cache = PyDict d \<and> (\<forall>k. py_get cache k = Inr (dict_get d k)))
   \<or> (\<forall>k. py_get cache k = Inl AttributeError)"
  by (cases cache) simp_all

lemma should_send_reads:
  "(should_send cache risk = Inr True) =
     (\<exists>last_kp. py_get cache ''last_kp'' = Inr last_kp
        \<and> (\<not> truthy last_kp \<or> py_get cache ''last_risk'' \<noteq> Inr (PyStr risk)))"
proof -
  from py_get_cases [of cache] show ?thesis
  proof
    assume "\<exists>d. cache = PyDict d \<and> (\<forall>k. py_get cache k = Inr (dict_get d k))"
    then obtain d where "cache = PyDict d"
      by blast
    then show ?thesis
      by (auto simp: should_send_dict)
  next
    assume "\<forall>k. py_get cache k = Inl AttributeError"
    then show ?thesis
      by (simp add: should_send_def)
  qed
qed

text \<open>The five assignments on a dict: the dict that goes back to the cache file.\<close>

lemma sent_cache_dict:
  "\<exists>d'. sent_cache e s sid (PyDict d) = Inr (PyDict d')
     \<and> dict_get d' ''last_kp'' = kp_obj (s_kp s)
     \<and> dict_get d' ''last_risk'' = PyStr (s_risk s)"
  by (simp add: sent_cache_def dict_get_set)

text \<open>A cycle whose three fetches returned, by the outcome of the decision.\<close>

lemma notified_decided:
  assumes "readings e = Inr (Some s)"
  shows "notified (check_and_alert e fs) =
    (if should_send (load_cache (cache_file fs)) (s_risk s) = Inr True then [full_msg e s]
     else [])"
  using assms by (simp add: check_and_alert_def Let_def split: sum.split)

lemma cycle_undecided:
  assumes "readings e = Inr (Some s)"
    and "should_send (load_cache (cache_file fs)) (s_risk s) = Inl x"
  shows "check_and_alert e fs = \<lparr>disk = fs, notified = [], ended = Error_in_check x\<rparr>"
  using assms by (simp add: check_and_alert_def Let_def)

lemma status_decided:
  assumes "readings e = Inr (Some s)"
    and "should_send (load_cache (cache_file fs)) (s_risk s) = Inr b"
  shows "status_file (disk (check_and_alert e fs))
    = Holds (PyDict (current_status s (utc_clean e)))"
  using assms
  by (simp add: check_and_alert_def Let_def save_cache_def split: sum.split)

lemma failed_send:
  assumes "readings e = Inr (Some s)"
    and "should_send (load_cache (cache_file fs)) (s_risk s) = Inr True"
    and "send_whatsapp e (full_msg e s) = Inl x"
  shows "ended (check_and_alert e fs) = Error_in_check x"
    and "cache_file (disk (check_and_alert e fs)) = cache_file fs"
  using assms by (simp_all add: check_and_alert_def Let_def)

lemma accepted_send:
  assumes "readings e = Inr (Some s)"
    and "load_cache (cache_file fs) = PyDict d"
    and "should_send (PyDict d) (s_risk s) = Inr True"
    and "send_whatsapp e (full_msg e s) = Inr sid"
  shows "\<exists>d'. cache_file (disk (check_and_alert e fs)) = Holds (PyDict d')
     \<and> dict_get d' ''last_kp'' = kp_obj (s_kp s)
     \<and> dict_get d' ''last_risk'' = PyStr (s_risk s)"
proof -
  from sent_cache_dict [of e s sid d] obtain d' where
    "sent_cache e s sid (PyDict d) = Inr (PyDict d')"
    "dict_get d' ''last_kp'' = kp_obj (s_kp s)"
    "dict_get d' ''last_risk'' = PyStr (s_risk s)"
    by blast
  with assms show ?thesis
    by (simp add: check_and_alert_def Let_def save_cache_def)
qed

text \<open>
  With a cache that is missing, unreadable or a dict, every cycle that reaches the
  decision writes the status file; and with a missing or unreadable cache it notifies.
\<close>

lemma status_written_with_dict_cache:
  assumes "readings e = Inr (Some s)"
    and "load_cache (cache_file fs) = PyDict d"
  shows "status_file (disk (check_and_alert e fs))
    = Holds (PyDict (current_status s (utc_clean e)))"
  using assms by (simp add: status_decided should_send_dict)

lemma empty_cache_forces_alert:
  assumes "cache_file fs = Absent \<or> cache_file fs = Unreadable"
    and "readings e = Inr (Some s)"
  shows "notified (check_and_alert e fs) = [full_msg e s]"
proof -
  from assms(1) have "load_cache (cache_file fs) = PyDict []"
    by auto
  then show ?thesis
    by (simp add: notified_decided [OF assms(2)] should_send_dict)
qed

text \<open>The example cycles reach the decision, with the sample \<open>kp_sample k\<close>.\<close>

lemma small_int_float: "\<bar>k\<bar> \<le> 9 \<Longrightarrow> float_of_small_int (PyNum (PyInt k)) = Inr (Fin (real_of_int k))"
  by (simp add: float_of_small_int_def)

lemma readings_kp_env:
  assumes "\<bar>k\<bar> \<le> 9"
  shows "readings (kp_env k gw hm) = Inr (Some (kp_sample k))"
  by (simp add: readings_def kp_env_def noaa_kp_def fetch_latest_kp_def py_not_def
      small_int_float [OF assms] fetch_latest_nasa_flare_def flare_try_def
      except_RequestException_def fetch_latest_cme_def cme_try_def score_risk_kp_only
      kp_sample_def Let_def)

lemma kp_sample_risk:
  "s_risk (kp_sample 0) = ''green''" "s_risk (kp_sample 2) = ''green''"
  "s_risk (kp_sample 7) = ''red''"
  by (simp_all add: kp_sample_def geo_severity_def)

lemma kp_sample_kp: "s_kp (kp_sample k) = Some (Fin (real_of_int k))"
  by (simp add: kp_sample_def)

lemma kp_sample_fields:
  "kp_obj (s_kp (kp_sample k)) = PyNum (PyFloat (Fin (real_of_int k)))"
  "s_flare (kp_sample k) = PyNone" "speed_obj (s_cme (kp_sample k)) = PyNone"
  by (simp_all add: kp_sample_def)

lemma kp_env_clean: "utc_clean (kp_env k gw hm) = ''2025-10-04 '' @ hm @ '':00 UTC''"
  by (simp add: kp_env_def)

lemma kp_env_gateway:
  "send_whatsapp (kp_env k gateway_up hm) m = Inr ''SM0001''"
  "send_whatsapp (kp_env k gateway_down hm) m = Inl TwilioException"
  by (simp_all add: send_whatsapp_def kp_env_def gateway_up_def gateway_down_def)

lemma files_after_cache:
  "load_cache (cache_file (files_after k r))
     = PyDict [(''last_kp'', PyNum (PyFloat (Fin (real_of_int k)))),
               (''last_time'', PyStr ''2025-10-04T11:55:00''),
               (''last_risk'', PyStr r),
               (''last_sent_sid'', PyStr ''SM0000''),
               (''last_sent_at'', PyStr ''2025-10-04T11:55:01+00:00'')]"
  by (simp add: files_after_def)

lemma files_after_reads:
  "py_get (load_cache (cache_file (files_after k r))) ''last_kp''
     = Inr (PyNum (PyFloat (Fin (real_of_int k))))"
  "py_get (load_cache (cache_file (files_after k r))) ''last_risk'' = Inr (PyStr r)"
  by (simp_all add: files_after_cache)

lemma no_files_cache: "load_cache (cache_file no_files) = PyDict []"
  by (simp add: no_files_def)

lemma list_in_cache_reads:
  "load_cache (cache_file list_in_cache) = PyList []"
  "should_send (load_cache (cache_file list_in_cache)) r = Inl AttributeError"
  by (simp_all add: list_in_cache_def should_send_def)

text \<open>
  C10. The dispatch decision tests the truthiness of the cached \<^verbatim>\<open>last_kp\<close>, not the
  presence of a prior record: a cycle that reaches the decision notifies exactly when
  \<^verbatim>\<open>cache.get("last_kp")\<close> yields a falsy value, or yields a value and
  \<^verbatim>\<open>cache.get("last_risk")\<close> differs from the new risk. So a cached \<^verbatim>\<open>last_kp\<close> of 0
  (or any falsy value) makes the next cycle notify, also when the new risk equals the
  cached \<^verbatim>\<open>last_risk\<close>.
\<close>

theorem falsy_last_kp_forces_alert:
  assumes "readings e = Inr (Some s)"
  shows "(notified (check_and_alert e fs) \<noteq> []) =
           (\<exists>last_kp. py_get (load_cache (cache_file fs)) ''last_kp'' = Inr last_kp
              \<and> (\<not> truthy last_kp
                   \<or> py_get (load_cache (cache_file fs)) ''last_risk''
                       \<noteq> Inr (PyStr (s_risk s))))
         \<and> (\<forall>last_kp. py_get (load_cache (cache_file fs)) ''last_kp'' = Inr last_kp
               \<and> \<not> truthy last_kp
               \<longrightarrow> notified (check_and_alert e fs) = [full_msg e s])"
proof -
  have decision:
    "(should_send (load_cache (cache_file fs)) (s_risk s) = Inr True) =
       (\<exists>last_kp. py_get (load_cache (cache_file fs)) ''last_kp'' = Inr last_kp
          \<and> (\<not> truthy last_kp
               \<or> py_get (load_cache (cache_file fs)) ''last_risk''
                   \<noteq> Inr (PyStr (s_risk s))))"
    by (rule should_send_reads)
  have exactly:
    "(notified (check_and_alert e fs) \<noteq> []) =
       (should_send (load_cache (cache_file fs)) (s_risk s) = Inr True)"
    by (simp add: notified_decided [OF assms])
  have forced: "notified (check_and_alert e fs) = [full_msg e s]"
    if "py_get (load_cache (cache_file fs)) ''last_kp'' = Inr last_kp" and "\<not> truthy last_kp"
    for last_kp
  proof -
    from that have "should_send (load_cache (cache_file fs)) (s_risk s) = Inr True"
      unfolding decision by blast
    then show ?thesis
      by (simp add: notified_decided [OF assms])
  qed
  from exactly decision forced show ?thesis
    by blast
qed

theorem falsy_last_kp_forces_alert_witness:
  "readings (kp_env 0 gateway_up ''12:00'') = Inr (Some (kp_sample 0))
   \<and> py_get (load_cache (cache_file (files_after 0 ''green''))) ''last_kp''
       = Inr (PyNum (PyFloat (Fin 0)))
   \<and> \<not> truthy (PyNum (PyFloat (Fin 0)))
   \<and> py_get (load_cache (cache_file (files_after 0 ''green''))) ''last_risk''
       = Inr (PyStr (s_risk (kp_sample 0)))
   \<and> notified (check_and_alert (kp_env 0 gateway_up ''12:00'') (files_after 0 ''green''))
       = [full_msg (kp_env 0 gateway_up ''12:00'') (kp_sample 0)]"
proof -
  have sampled: "readings (kp_env 0 gateway_up ''12:00'') = Inr (Some (kp_sample 0))"
    by (rule readings_kp_env) simp
  have stored:
    "py_get (load_cache (cache_file (files_after 0 ''green''))) ''last_kp''
       = Inr (PyNum (PyFloat (Fin 0)))"
    using files_after_reads(1) [of 0 "''green''"] by simp
  have falsy: "\<not> truthy (PyNum (PyFloat (Fin 0)))"
    by simp
  from falsy_last_kp_forces_alert [OF sampled, of "files_after 0 ''green''"] stored falsy
  have "notified (check_and_alert (kp_env 0 gateway_up ''12:00'') (files_after 0 ''green''))
       = [full_msg (kp_env 0 gateway_up ''12:00'') (kp_sample 0)]"
    by blast
  with sampled stored falsy show ?thesis
    by (simp add: files_after_reads kp_sample_risk)
qed

text \<open>
  C1, evaluated where it fails. NOAA reports the Kp index 0 in three cycles in a row,
  with no flare and no CME. The first cycle starts without files and alerts; it leaves
  a record with \<^verbatim>\<open>last_risk\<close> green. The second and the third cycle compute green
  again, with that record present, and each of them hands a message to
  \<^verbatim>\<open>send_whatsapp\<close>.
\<close>

theorem kp_zero_alerts_every_cycle:
  "readings (kp_env 0 gateway_up ''12:05'') = Inr (Some (kp_sample 0))
   \<and> readings (kp_env 0 gateway_up ''12:10'') = Inr (Some (kp_sample 0))
   \<and> s_risk (kp_sample 0) = ''green''
   \<and> py_get (load_cache (cache_file
         (disk (check_and_alert (kp_env 0 gateway_up ''12:00'') no_files)))) ''last_risk''
       = Inr (PyStr ''green'')
   \<and> notified
         (check_and_alert (kp_env 0 gateway_up ''12:05'')
           (disk (check_and_alert (kp_env 0 gateway_up ''12:00'') no_files)))
       = [full_msg (kp_env 0 gateway_up ''12:05'') (kp_sample 0)]
   \<and> py_get (load_cache (cache_file
         (disk (check_and_alert (kp_env 0 gateway_up ''12:05'')
           (disk (check_and_alert (kp_env 0 gateway_up ''12:00'') no_files)))))) ''last_risk''
       = Inr (PyStr ''green'')
   \<and> notified
         (check_and_alert (kp_env 0 gateway_up ''12:10'')
           (disk (check_and_alert (kp_env 0 gateway_up ''12:05'')
             (disk (check_and_alert (kp_env 0 gateway_up ''12:00'') no_files)))))
       = [full_msg (kp_env 0 gateway_up ''12:10'') (kp_sample 0)]"
proof -
  have sampled: "readings (kp_env 0 gateway_up hm) = Inr (Some (kp_sample 0))" for hm
    by (rule readings_kp_env) simp
  have zero: "\<not> truthy (kp_obj (s_kp (kp_sample 0)))"
    by (simp add: kp_sample_kp)
  have step:
    "\<exists>d'. cache_file (disk (check_and_alert (kp_env 0 gateway_up hm) fs)) = Holds (PyDict d')
       \<and> dict_get d' ''last_kp'' = kp_obj (s_kp (kp_sample 0))
       \<and> dict_get d' ''last_risk'' = PyStr (s_risk (kp_sample 0))"
    if "load_cache (cache_file fs) = PyDict d" and "\<not> truthy (dict_get d ''last_kp'')"
    for hm fs d
  proof -
    from that(2) have "should_send (PyDict d) (s_risk (kp_sample 0)) = Inr True"
      by (simp add: should_send_dict)
    from accepted_send [OF sampled that(1) this kp_env_gateway(1)] show ?thesis .
  qed
  have fresh: "\<not> truthy (dict_get [] ''last_kp'')"
    by simp
  from step [OF no_files_cache fresh] obtain d1 where cache1:
    "cache_file (disk (check_and_alert (kp_env 0 gateway_up ''12:00'') no_files))
       = Holds (PyDict d1)"
    "dict_get d1 ''last_kp'' = kp_obj (s_kp (kp_sample 0))"
    "dict_get d1 ''last_risk'' = PyStr (s_risk (kp_sample 0))"
    by blast
  have load1:
    "load_cache (cache_file (disk (check_and_alert (kp_env 0 gateway_up ''12:00'') no_files)))
       = PyDict d1"
    by (simp add: cache1(1))
  from zero cache1(2) have falsy1: "\<not> truthy (dict_get d1 ''last_kp'')"
    by simp
  from step [OF load1 falsy1] obtain d2 where cache2:
    "cache_file
        (disk (check_and_alert (kp_env 0 gateway_up ''12:05'')
          (disk (check_and_alert (kp_env 0 gateway_up ''12:00'') no_files))))
       = Holds (PyDict d2)"
    "dict_get d2 ''last_kp'' = kp_obj (s_kp (kp_sample 0))"
    "dict_get d2 ''last_risk'' = PyStr (s_risk (kp_sample 0))"
    by blast
  from zero cache2(2) have falsy2: "\<not> truthy (dict_get d2 ''last_kp'')"
    by simp
  have second:
    "notified
         (check_and_alert (kp_env 0 gateway_up ''12:05'')
           (disk (check_and_alert (kp_env 0 gateway_up ''12:00'') no_files)))
       = [full_msg (kp_env 0 gateway_up ''12:05'') (kp_sample 0)]"
    using falsy1 by (simp add: notified_decided [OF sampled] load1 should_send_dict)
  have third:
    "notified
         (check_and_alert (kp_env 0 gateway_up ''12:10'')
           (disk (check_and_alert (kp_env 0 gateway_up ''12:05'')
             (disk (check_and_alert (kp_env 0 gateway_up ''12:00'') no_files)))))
       = [full_msg (kp_env 0 gateway_up ''12:10'') (kp_sample 0)]"
    using falsy2 by (simp add: notified_decided [OF sampled] cache2(1) should_send_dict)
  from sampled second third show ?thesis
    by (simp add: cache1(1,3) cache2(1,3) kp_sample_risk)
qed

text \<open>
  C7, evaluated where it fails. First the scenario of the specification, Kp 2.0 with no
  flare and no CME and the previous risk green, on the record a cycle at Kp 0 left: the
  stored \<^verbatim>\<open>last_kp\<close> 0.0 is falsy, and the cycle sends a message although the risk is
  green as before (the status file is written). Then the same cycle on a cache file that
  holds a JSON list: the risk is computed, \<^verbatim>\<open>cache.get\<close> raises, and the cycle ends in
  its handler with the status file not written.
\<close>

theorem unchanged_normal_notifies_and_status_skipped:
  "readings (kp_env 2 gateway_up ''12:00'') = Inr (Some (kp_sample 2))
   \<and> s_risk (kp_sample 2) = ''green''
   \<and> py_get (load_cache (cache_file (files_after 0 ''green''))) ''last_risk''
       = Inr (PyStr ''green'')
   \<and> notified (check_and_alert (kp_env 2 gateway_up ''12:00'') (files_after 0 ''green''))
       = [full_msg (kp_env 2 gateway_up ''12:00'') (kp_sample 2)]
   \<and> status_file (disk (check_and_alert (kp_env 2 gateway_up ''12:00'') (files_after 0 ''green'')))
       = Holds (PyDict [(''risk'', PyStr ''green''),
                        (''kp_value'', PyNum (PyFloat (Fin 2))),
                        (''flare_class'', PyNone),
                        (''cme_speed'', PyNone),
                        (''time'', PyStr ''2025-10-04 12:00:00 UTC'')])
   \<and> load_cache (cache_file list_in_cache) = PyList []
   \<and> status_file list_in_cache = Absent
   \<and> check_and_alert (kp_env 2 gateway_up ''12:00'') list_in_cache
       = \<lparr>disk = list_in_cache, notified = [], ended = Error_in_check AttributeError\<rparr>"
proof -
  have sampled: "readings (kp_env 2 gateway_up ''12:00'') = Inr (Some (kp_sample 2))"
    by (rule readings_kp_env) simp
  have decided:
    "should_send (load_cache (cache_file (files_after 0 ''green''))) (s_risk (kp_sample 2))
       = Inr True"
    by (simp add: files_after_cache should_send_dict)
  have sent:
    "notified (check_and_alert (kp_env 2 gateway_up ''12:00'') (files_after 0 ''green''))
       = [full_msg (kp_env 2 gateway_up ''12:00'') (kp_sample 2)]"
    by (simp add: notified_decided [OF sampled] decided)
  have written:
    "status_file (disk (check_and_alert (kp_env 2 gateway_up ''12:00'') (files_after 0 ''green'')))
       = Holds (PyDict [(''risk'', PyStr ''green''),
                        (''kp_value'', PyNum (PyFloat (Fin 2))),
                        (''flare_class'', PyNone),
                        (''cme_speed'', PyNone),
                        (''time'', PyStr ''2025-10-04 12:00:00 UTC'')])"
    by (simp add: status_decided [OF sampled decided] current_status_def kp_sample_risk
        kp_sample_fields kp_env_clean)
  have skipped:
    "check_and_alert (kp_env 2 gateway_up ''12:00'') list_in_cache
       = \<lparr>disk = list_in_cache, notified = [], ended = Error_in_check AttributeError\<rparr>"
    by (rule cycle_undecided [OF sampled list_in_cache_reads(2)])
  have untouched: "status_file list_in_cache = Absent"
    by (simp add: list_in_cache_def)
  from sampled sent written skipped untouched show ?thesis
    by (simp add: kp_sample_risk files_after_reads list_in_cache_reads)
qed

text \<open>
  C8, evaluated where it fails. The cache file holds corrupted content that is still
  JSON, the empty list. \<open>load_cache\<close> returns the list, \<^verbatim>\<open>cache.get\<close> raises
  \<^verbatim>\<open>AttributeError\<close>, and the cycle, which computed the risk red, ends in its handler:
  it sends nothing and leaves the files as they are, so the next cycle does the same.
  With the file missing, or holding text that \<^verbatim>\<open>json.load\<close> rejects, the same cycle
  does load the empty dict and sends the alert.
\<close>

theorem list_in_cache_blocks_alert:
  "load_cache (cache_file list_in_cache) = PyList []
   \<and> readings (kp_env 7 gateway_up ''12:00'') = Inr (Some (kp_sample 7))
   \<and> readings (kp_env 7 gateway_up ''12:05'') = Inr (Some (kp_sample 7))
   \<and> s_risk (kp_sample 7) = ''red''
   \<and> check_and_alert (kp_env 7 gateway_up ''12:00'') list_in_cache
       = \<lparr>disk = list_in_cache, notified = [], ended = Error_in_check AttributeError\<rparr>
   \<and> check_and_alert (kp_env 7 gateway_up ''12:05'')
         (disk (check_and_alert (kp_env 7 gateway_up ''12:00'') list_in_cache))
       = \<lparr>disk = list_in_cache, notified = [], ended = Error_in_check AttributeError\<rparr>
   \<and> load_cache (cache_file no_files) = PyDict []
   \<and> notified (check_and_alert (kp_env 7 gateway_up ''12:00'') no_files)
       = [full_msg (kp_env 7 gateway_up ''12:00'') (kp_sample 7)]
   \<and> load_cache Unreadable = PyDict []
   \<and> notified (check_and_alert (kp_env 7 gateway_up ''12:00'')
         \<lparr>cache_file = Unreadable, status_file = Absent\<rparr>)
       = [full_msg (kp_env 7 gateway_up ''12:00'') (kp_sample 7)]"
proof -
  have sampled: "readings (kp_env 7 gateway_up hm) = Inr (Some (kp_sample 7))" for hm
    by (rule readings_kp_env) simp
  have blocked:
    "check_and_alert (kp_env 7 gateway_up hm) list_in_cache
       = \<lparr>disk = list_in_cache, notified = [], ended = Error_in_check AttributeError\<rparr>" for hm
    by (rule cycle_undecided [OF sampled list_in_cache_reads(2)])
  have missing:
    "notified (check_and_alert (kp_env 7 gateway_up ''12:00'') no_files)
       = [full_msg (kp_env 7 gateway_up ''12:00'') (kp_sample 7)]"
    by (rule empty_cache_forces_alert [OF _ sampled]) (simp add: no_files_def)
  have rejected:
    "notified (check_and_alert (kp_env 7 gateway_up ''12:00'')
         \<lparr>cache_file = Unreadable, status_file = Absent\<rparr>)
       = [full_msg (kp_env 7 gateway_up ''12:00'') (kp_sample 7)]"
    by (rule empty_cache_forces_alert [OF _ sampled]) simp
  from sampled blocked missing rejected show ?thesis
    by (simp add: kp_sample_risk no_files_cache list_in_cache_reads)
qed

text \<open>
  C6 as stated fails. The previous cycle left a record with \<^verbatim>\<open>last_risk\<close> green. NOAA
  then reports Kp 7 and the gateway is down: the cycle hands the red alert to
  \<^verbatim>\<open>send_whatsapp\<close>, which raises; the status file says red, but the cache, the state
  the deduplication reads, is what it was and still says green. The next cycle computes
  red again and sends the alert again.
\<close>

theorem failed_dispatch_retry_counterexample:
  "readings (kp_env 7 gateway_down ''12:00'') = Inr (Some (kp_sample 7))
   \<and> readings (kp_env 7 gateway_up ''12:05'') = Inr (Some (kp_sample 7))
   \<and> s_risk (kp_sample 7) = ''red''
   \<and> notified (check_and_alert (kp_env 7 gateway_down ''12:00'') (files_after 2 ''green''))
       = [full_msg (kp_env 7 gateway_down ''12:00'') (kp_sample 7)]
   \<and> ended (check_and_alert (kp_env 7 gateway_down ''12:00'') (files_after 2 ''green''))
       = Error_in_check TwilioException
   \<and> cache_file (disk (check_and_alert (kp_env 7 gateway_down ''12:00'') (files_after 2 ''green'')))
       = cache_file (files_after 2 ''green'')
   \<and> py_get (load_cache (cache_file
         (disk (check_and_alert (kp_env 7 gateway_down ''12:00'') (files_after 2 ''green'')))))
         ''last_risk''
       = Inr (PyStr ''green'')
   \<and> notified
         (check_and_alert (kp_env 7 gateway_up ''12:05'')
           (disk (check_and_alert (kp_env 7 gateway_down ''12:00'') (files_after 2 ''green''))))
       = [full_msg (kp_env 7 gateway_up ''12:05'') (kp_sample 7)]"
proof -
  have sampled: "readings (kp_env 7 gw hm) = Inr (Some (kp_sample 7))" for gw hm
    by (rule readings_kp_env) simp
  have changed:
    "should_send (load_cache (cache_file (files_after 2 ''green''))) (s_risk (kp_sample 7))
       = Inr True"
    by (simp add: files_after_cache should_send_dict kp_sample_risk)
  have kept:
    "cache_file (disk (check_and_alert (kp_env 7 gateway_down ''12:00'') (files_after 2 ''green'')))
       = cache_file (files_after 2 ''green'')"
    by (rule failed_send(2) [OF sampled changed kp_env_gateway(2)])
  have raised:
    "ended (check_and_alert (kp_env 7 gateway_down ''12:00'') (files_after 2 ''green''))
       = Error_in_check TwilioException"
    by (rule failed_send(1) [OF sampled changed kp_env_gateway(2)])
  have attempted:
    "notified (check_and_alert (kp_env 7 gateway_down ''12:00'') (files_after 2 ''green''))
       = [full_msg (kp_env 7 gateway_down ''12:00'') (kp_sample 7)]"
    by (simp add: notified_decided [OF sampled] changed)
  have retried:
    "notified
         (check_and_alert (kp_env 7 gateway_up ''12:05'')
           (disk (check_and_alert (kp_env 7 gateway_down ''12:00'') (files_after 2 ''green''))))
       = [full_msg (kp_env 7 gateway_up ''12:05'') (kp_sample 7)]"
    by (simp add: notified_decided [OF sampled] kept changed)
  from sampled raised attempted retried show ?thesis
    by (simp add: kept kp_sample_risk files_after_reads)
qed

text \<open>
  C6 as amended. When \<^verbatim>\<open>send_whatsapp\<close> raises, the cycle has already written the new
  risk and readings to the status file, and it leaves the cache, with \<^verbatim>\<open>last_risk\<close>,
  \<^verbatim>\<open>last_sent_sid\<close> and \<^verbatim>\<open>last_sent_at\<close>, exactly as it found it. So a next cycle
  that computes the same risk hands its message to \<^verbatim>\<open>send_whatsapp\<close> again.
\<close>

theorem failed_dispatch_keeps_cache:
  assumes "readings e = Inr (Some s)"
    and "notified (check_and_alert e fs) = [m]"
    and "send_whatsapp e m = Inl x"
  shows "ended (check_and_alert e fs) = Error_in_check x
         \<and> status_file (disk (check_and_alert e fs))
             = Holds (PyDict (current_status s (utc_clean e)))
         \<and> cache_file (disk (check_and_alert e fs)) = cache_file fs
         \<and> (\<forall>e' s'. readings e' = Inr (Some s') \<and> s_risk s' = s_risk s
              \<longrightarrow> notified (check_and_alert e' (disk (check_and_alert e fs)))
                    = [full_msg e' s'])"
proof -
  from assms(1,2) have decided: "should_send (load_cache (cache_file fs)) (s_risk s) = Inr True"
    and message: "m = full_msg e s"
    by (auto simp: notified_decided split: if_splits)
  from assms(3) message have raised: "send_whatsapp e (full_msg e s) = Inl x"
    by simp
  have ending: "ended (check_and_alert e fs) = Error_in_check x"
    by (rule failed_send(1) [OF assms(1) decided raised])
  have status: "status_file (disk (check_and_alert e fs))
      = Holds (PyDict (current_status s (utc_clean e)))"
    by (rule status_decided [OF assms(1) decided])
  have cache: "cache_file (disk (check_and_alert e fs)) = cache_file fs"
    by (rule failed_send(2) [OF assms(1) decided raised])
  have retry: "notified (check_and_alert e' (disk (check_and_alert e fs))) = [full_msg e' s']"
    if "readings e' = Inr (Some s')" and "s_risk s' = s_risk s" for e' s'
    using that decided by (simp add: notified_decided cache)
  from ending status cache retry show ?thesis
    by blast
qed

theorem failed_dispatch_keeps_cache_witness:
  "readings (kp_env 7 gateway_down ''12:00'') = Inr (Some (kp_sample 7))
   \<and> notified (check_and_alert (kp_env 7 gateway_down ''12:00'') (files_after 2 ''green''))
       = [full_msg (kp_env 7 gateway_down ''12:00'') (kp_sample 7)]
   \<and> send_whatsapp (kp_env 7 gateway_down ''12:00'')
         (full_msg (kp_env 7 gateway_down ''12:00'') (kp_sample 7))
       = Inl TwilioException
   \<and> ended (check_and_alert (kp_env 7 gateway_down ''12:00'') (files_after 2 ''green''))
       = Error_in_check TwilioException
   \<and> cache_file (disk (check_and_alert (kp_env 7 gateway_down ''12:00'') (files_after 2 ''green'')))
       = cache_file (files_after 2 ''green'')
   \<and> readings (kp_env 7 gateway_up ''12:05'') = Inr (Some (kp_sample 7))
   \<and> notified
         (check_and_alert (kp_env 7 gateway_up ''12:05'')
           (disk (check_and_alert (kp_env 7 gateway_down ''12:00'') (files_after 2 ''green''))))
       = [full_msg (kp_env 7 gateway_up ''12:05'') (kp_sample 7)]"
proof -
  have sampled: "readings (kp_env 7 gw hm) = Inr (Some (kp_sample 7))" for gw hm
    by (rule readings_kp_env) simp
  have refused:
    "send_whatsapp (kp_env 7 gateway_down ''12:00'')
       (full_msg (kp_env 7 gateway_down ''12:00'') (kp_sample 7)) = Inl TwilioException"
    by (rule kp_env_gateway(2))
  have attempted:
    "notified (check_and_alert (kp_env 7 gateway_down ''12:00'') (files_after 2 ''green''))
       = [full_msg (kp_env 7 gateway_down ''12:00'') (kp_sample 7)]"
    by (simp add: notified_decided [OF sampled] files_after_cache should_send_dict
        kp_sample_risk)
  from failed_dispatch_keeps_cache [OF sampled attempted refused] sampled attempted refused
  show ?thesis
    by simp
qed

section \<open>Properties of the indicator sources\<close>

text \<open>
  C5, evaluated where it fails. On a connection failure, a timeout, an error status
  and a body that is not JSON, \<open>fetch_latest_kp\<close> raises to its caller; on a connection
  failure, a timeout and an error status the flare and the CME source return
  \<^verbatim>\<open>None\<close>. A cycle in which NOAA cannot be reached ends in its handler, with the
  other two sources not asked. On a payload that is JSON of another shape (here an
  object instead of a list) all three sources raise.
\<close>

theorem kp_source_raises:
  "fetch_latest_kp float_of_small_int Unreachable = Inl ConnectionError
   \<and> fetch_latest_kp float_of_small_int TimedOut = Inl Timeout
   \<and> fetch_latest_kp float_of_small_int BadStatus = Inl HTTPError
   \<and> fetch_latest_kp float_of_small_int NotJSON = Inl JSONDecodeError
   \<and> fetch_latest_nasa_flare Unreachable = Inr None
   \<and> fetch_latest_nasa_flare TimedOut = Inr None
   \<and> fetch_latest_nasa_flare BadStatus = Inr None
   \<and> fetch_latest_cme Unreachable = Inr None
   \<and> fetch_latest_cme TimedOut = Inr None
   \<and> fetch_latest_cme BadStatus = Inr None
   \<and> check_and_alert ((kp_env 7 gateway_up ''12:00'')\<lparr>noaa := Unreachable\<rparr>) no_files
       = \<lparr>disk = no_files, notified = [], ended = Error_in_check ConnectionError\<rparr>
   \<and> fetch_latest_kp float_of_small_int (Body (PyDict [(''message'', PyStr ''busy'')]))
       = Inl KeyError
   \<and> fetch_latest_nasa_flare (Body (PyDict [(''message'', PyStr ''busy'')])) = Inl KeyError
   \<and> fetch_latest_cme (Body (PyDict [(''message'', PyStr ''busy'')])) = Inl AttributeError"
proof -
  have kp: "fetch_latest_kp conv r = Inl x" if "get_json r = Inl x" for conv r x
    using that by (simp add: fetch_latest_kp_def)
  have flare: "fetch_latest_nasa_flare r = Inr None"
    if "get_json r = Inl x" and "is_RequestException x" for r x
    using that by (simp add: fetch_latest_nasa_flare_def flare_try_def except_RequestException_def)
  have cme: "fetch_latest_cme r = Inr None"
    if "get_json r = Inl x" and "is_RequestException x" for r x
    using that by (simp add: fetch_latest_cme_def cme_try_def except_RequestException_def)
  have cycle:
    "check_and_alert ((kp_env 7 gateway_up ''12:00'')\<lparr>noaa := Unreachable\<rparr>) no_files
       = \<lparr>disk = no_files, notified = [], ended = Error_in_check ConnectionError\<rparr>"
    by (simp add: check_and_alert_def readings_def kp)
  have shape_kp:
    "fetch_latest_kp float_of_small_int (Body (PyDict [(''message'', PyStr ''busy'')]))
       = Inl KeyError"
    by (simp add: fetch_latest_kp_def py_not_def)
  have shape_flare:
    "fetch_latest_nasa_flare (Body (PyDict [(''message'', PyStr ''busy'')])) = Inl KeyError"
    by (simp add: fetch_latest_nasa_flare_def flare_try_def except_RequestException_def
        py_not_def)
  have shape_cme:
    "fetch_latest_cme (Body (PyDict [(''message'', PyStr ''busy'')])) = Inl AttributeError"
    by (simp add: fetch_latest_cme_def cme_try_def except_RequestException_def py_not_def)
  show ?thesis
    by (simp add: kp flare cme cycle shape_kp shape_flare shape_cme)
qed

section \<open>Properties of the messages\<close>

text \<open>
  C9 as stated fails. NASA reports a flare of class C2.1, so flare data is present; with
  Kp 4 and no CME the risk is yellow. The yellow message ends with the navigation
  advice: the flare-risk note is not among its lines.
\<close>

theorem flare_note_counterexample:
  "fetch_latest_nasa_flare
       (Body (PyList [PyDict [(''classType'', PyStr ''C2.1''),
                              (''beginTime'', PyStr ''2025-10-04T11:40Z'')]]))
     = Inr (Some \<lparr>fd_class = PyStr ''C'', fd_time = PyStr ''2025-10-04T11:40Z'',
                  fd_raw = PyDict [(''classType'', PyStr ''C2.1''),
                                   (''beginTime'', PyStr ''2025-10-04T11:40Z'')]\<rparr>)
   \<and> score_risk float_of_small_int (PyNum (PyFloat (Fin 4))) (PyStr ''C'') PyNone
       = Inr ''yellow''
   \<and> length (body_lines repr_stub ''yellow'' (PyNum (PyFloat (Fin 4)))
         (PyStr ''2025-10-04T12:00:00'') (PyStr ''C'') PyNone ''en'') = 3
   \<and> last (body_lines repr_stub ''yellow'' (PyNum (PyFloat (Fin 4)))
         (PyStr ''2025-10-04T12:00:00'') (PyStr ''C'') PyNone ''en'')
       = gps_advice PHRASES_en
   \<and> flare_risk PHRASES_en
       \<notin> set (body_lines repr_stub ''yellow'' (PyNum (PyFloat (Fin 4)))
                (PyStr ''2025-10-04T12:00:00'') (PyStr ''C'') PyNone ''en'')"
proof -
  have fetched:
    "fetch_latest_nasa_flare
       (Body (PyList [PyDict [(''classType'', PyStr ''C2.1''),
                              (''beginTime'', PyStr ''2025-10-04T11:40Z'')]]))
     = Inr (Some \<lparr>fd_class = PyStr ''C'', fd_time = PyStr ''2025-10-04T11:40Z'',
                  fd_raw = PyDict [(''classType'', PyStr ''C2.1''),
                                   (''beginTime'', PyStr ''2025-10-04T11:40Z'')]\<rparr>)"
    by (simp add: fetch_latest_nasa_flare_def flare_try_def except_RequestException_def
        py_not_def)
  have risk:
    "score_risk float_of_small_int (PyNum (PyFloat (Fin 4))) (PyStr ''C'') PyNone
       = Inr ''yellow''"
    by (simp add: score_risk_def kp_score_def flare_score_def cme_score_def
        not_none_and_gt_def)
  have lines:
    "body_lines repr_stub ''yellow'' (PyNum (PyFloat (Fin 4)))
         (PyStr ''2025-10-04T12:00:00'') (PyStr ''C'') PyNone ''en''
       = [title_yellow PHRASES_en, ''Observed at: 2025-10-04T12:00:00 (Kp=#)'',
          gps_advice PHRASES_en]"
    by (simp add: body_lines_def PHRASES_get_def Let_def repr_stub_def)
      (simp add: PHRASES_en_def)
  have absent:
    "flare_risk PHRASES_en
       \<notin> set [title_yellow PHRASES_en, ''Observed at: 2025-10-04T12:00:00 (Kp=#)'',
               gps_advice PHRASES_en]"
    by (simp add: PHRASES_en_def)
  from fetched risk lines absent show ?thesis
    by (simp del: set_simps)
qed

text \<open>
  C9 as amended. Every yellow message has the title, the line of the observation and
  the navigation advice, and after them the flare-risk note if and only if the flare
  class is M or a CME speed is present and not zero.
\<close>

theorem yellow_message_lines:
  "\<exists>observed.
     body_lines repr ''yellow'' kp t fl c lang
       = [title_yellow (PHRASES_get lang), observed, gps_advice (PHRASES_get lang)]
         @ (if fl = PyStr ''M'' \<or> truthy c then [flare_risk (PHRASES_get lang)]
            else [])
     \<and> format_message repr ''yellow'' kp t fl c lang
       = join [CHR 0x0A]
           ([title_yellow (PHRASES_get lang), observed, gps_advice (PHRASES_get lang)]
            @ (if fl = PyStr ''M'' \<or> truthy c then [flare_risk (PHRASES_get lang)]
               else []))"
proof -
  have "body_lines repr ''yellow'' kp t fl c lang
       = [title_yellow (PHRASES_get lang), hd (tl (body_lines repr ''yellow'' kp t fl c lang)),
          gps_advice (PHRASES_get lang)]
         @ (if fl = PyStr ''M'' \<or> truthy c then [flare_risk (PHRASES_get lang)]
            else [])"
    by (simp add: body_lines_def Let_def)
  then show ?thesis
    unfolding format_message_def by metis
qed

end
